theory Spec2Isabelle
  imports Main "HOL-Library.Sublist" "HOL-Library.Word"
begin

section \<open>Values, errors and log records\<close>

text \<open>
  The repository is \<open>s3_client.py\<close>: a logger facility (\<open>setup_logging\<close>,
  \<open>get_logger\<close>) and the class \<open>S3Client\<close>, five methods over a boto3 S3 client.
  Python values that travel through dictionaries are modelled by \<open>pyval\<close>; a dictionary
  is an association list in insertion order, read with \<open>map_of\<close> (the first binding of
  a key wins, and no dictionary built here binds a key twice).
\<close>

type_synonym bytes = "8 word list"

datatype pyval = PNone | PInt int | PStr string | PDatetime int

type_synonym dict = "(string \<times> pyval) list"

text \<open>
  Exceptions. \<open>ClientError code message\<close> is an instance of
  \<open>botocore.exceptions.ClientError\<close> or of a subclass of it, the only class the methods
  catch. \<open>OtherException cls message\<close> is an exception of any
  class \<open>cls\<close> that is not a subclass of \<open>ClientError\<close>: \<open>KeyError\<close>, \<open>OSError\<close> and
  its subclasses, and the SDK's own errors outside \<open>ClientError\<close> (botocore's
  \<open>BotoCoreError\<close> family, such as \<open>EndpointConnectionError\<close>).
\<close>

datatype exn = ClientError string string | OtherException string string

fun is_ClientError :: "exn \<Rightarrow> bool" where
  "is_ClientError (ClientError c m) = True"
| "is_ClientError (OtherException c m) = False"

text \<open>
  A path of \<open>pathlib\<close> on a POSIX system: the root (\<open>''''\<close>, \<open>''/''\<close> or \<open>''//''\<close>)
  and the components after it.
\<close>

datatype path = PurePath (anchor: string) (tail: "string list")

text \<open>
  The message of a log call: one constructor for each format string of the source, with
  the arguments of the call (the words of the format strings are not ASCII, so the
  format string is named, not spelled).
\<close>

datatype message =
    M_client_init string string
  | M_list_objects string int
  | M_list_objects_count nat string
  | M_list_objects_error exn
  | M_download_file string path
  | M_download_file_size nat
  | M_download_file_error string exn
  | M_to_buffer string
  | M_to_buffer_size string nat
  | M_to_buffer_error string exn
  | M_presigned_url string int
  | M_presigned_url_done string
  | M_presigned_url_error string exn
  | M_metadata string
  | M_metadata_size string pyval
  | M_metadata_error string exn

text \<open>
  One call of a logging method: the logger's name, the level (\<open>logging.DEBUG = 10\<close>,
  \<open>INFO = 20\<close>, \<open>ERROR = 40\<close>), whether the traceback is attached (\<open>Logger.exception\<close>
  logs at \<open>ERROR\<close> with \<open>exc_info\<close>), and the message.
\<close>

datatype log_record =
  LogRecord (rec_logger: string) (rec_level: int) (rec_exc_info: bool) (rec_msg: message)

definition DEBUG :: int where "DEBUG = 10"
definition INFO :: int where "INFO = 20"
definition ERROR :: int where "ERROR = 40"

section \<open>The file system\<close>

text \<open>
  A file system maps the string of a path to a directory or to a file with its bytes.
  Paths are taken as written: no symbolic links, no resolution of \<open>..\<close>, no working
  directory other than \<open>.\<close>, no permissions. The current directory and the roots always
  exist. \<open>dir_st_size\<close> is the \<open>st_size\<close> that \<open>stat\<close> reports for a directory.
\<close>

datatype node = Dir | File bytes

record filesystem =
  nodes :: "string \<rightharpoonup> node"
  dir_st_size :: nat

subsection \<open>pathlib\<close>

fun split_on :: "char \<Rightarrow> string \<Rightarrow> string list" where
  "split_on c [] = [[]]"
| "split_on c (x # xs) =
     (if x = c then [] # split_on c xs
      else (case split_on c xs of [] \<Rightarrow> [[x]] | w # ws \<Rightarrow> (x # w) # ws))"

fun join_with :: "string \<Rightarrow> string list \<Rightarrow> string" where
  "join_with sep [] = []"
| "join_with sep [x] = x"
| "join_with sep (x # y # ys) = x @ sep @ join_with sep (y # ys)"

text \<open>\<open>Path(s)\<close>: two leading slashes (and only two) are kept as the root \<open>//\<close>; empty
  components and \<open>.\<close> are dropped.\<close>

definition Path :: "string \<Rightarrow> path" where
  "Path s =
     PurePath
       (if prefix ''//'' s \<and> \<not> prefix ''///'' s then ''//''
        else if prefix ''/'' s then ''/'' else '''')
       (filter (\<lambda>p. p \<noteq> [] \<and> p \<noteq> ''.'') (split_on CHR ''/'' s))"

text \<open>\<open>str(p)\<close>.\<close>

definition str_path :: "path \<Rightarrow> string" where
  "str_path p =
     (if anchor p = [] \<and> tail p = [] then ''.''
      else anchor p @ join_with ''/'' (tail p))"

text \<open>\<open>p.name\<close>, \<open>p.parent\<close> and \<open>p / s\<close> for a string \<open>s\<close>.\<close>

definition name :: "path \<Rightarrow> string" where
  "name p = (if tail p = [] then [] else last (tail p))"

definition parent :: "path \<Rightarrow> path" where
  "parent p = (if tail p = [] then p else PurePath (anchor p) (butlast (tail p)))"

definition joinpath :: "path \<Rightarrow> string \<Rightarrow> path" where
  "joinpath p s =
     (let q = Path s
      in if anchor q \<noteq> [] then q else PurePath (anchor p) (tail p @ tail q))"

text \<open>
  \<open>p.mkdir(parents=True, exist_ok=True)\<close>: every missing directory from the top down to
  \<open>p\<close> is created. A file in the way raises, \<open>FileExistsError\<close> when it is at \<open>p\<close>
  itself and \<open>NotADirectoryError\<close> when it is above, in both cases for the path \<open>p\<close>;
  where the parent of every node is a directory, nothing has been created by then. A
  path without components is the current directory or a root, which exists.
\<close>

fun lineage_from :: "string \<Rightarrow> string list \<Rightarrow> string list \<Rightarrow> path list" where
  "lineage_from a seen [] = []"
| "lineage_from a seen (x # xs) = PurePath a (seen @ [x]) # lineage_from a (seen @ [x]) xs"

definition lineage :: "path \<Rightarrow> path list" where
  "lineage p = lineage_from (anchor p) [] (tail p)"

fun mkdir_all :: "string \<Rightarrow> path list \<Rightarrow> filesystem \<Rightarrow> exn + filesystem" where
  "mkdir_all target [] f = Inr f"
| "mkdir_all target (q # qs) f =
     (case nodes f (str_path q) of
        Some Dir \<Rightarrow> mkdir_all target qs f
      | Some (File d) \<Rightarrow>
          Inl (OtherException (if qs = [] then ''FileExistsError'' else ''NotADirectoryError'')
                 target)
      | None \<Rightarrow> mkdir_all target qs (f\<lparr>nodes := (nodes f)(str_path q \<mapsto> Dir)\<rparr>))"

definition mkdir_parents :: "path \<Rightarrow> filesystem \<Rightarrow> exn + filesystem" where
  "mkdir_parents p f = mkdir_all (str_path p) (lineage p) f"

text \<open>\<open>p.stat().st_size\<close> and \<open>p.read_bytes()\<close>.\<close>

definition st_size :: "path \<Rightarrow> filesystem \<Rightarrow> exn + nat" where
  "st_size p f =
     (case nodes f (str_path p) of
        None \<Rightarrow> Inl (OtherException ''FileNotFoundError'' (str_path p))
      | Some Dir \<Rightarrow> Inr (dir_st_size f)
      | Some (File d) \<Rightarrow> Inr (length d))"

definition read_bytes :: "path \<Rightarrow> filesystem \<Rightarrow> exn + bytes" where
  "read_bytes p f =
     (case nodes f (str_path p) of
        None \<Rightarrow> Inl (OtherException ''FileNotFoundError'' (str_path p))
      | Some Dir \<Rightarrow> Inl (OtherException ''IsADirectoryError'' (str_path p))
      | Some (File d) \<Rightarrow> Inr d)"

text \<open>Opening a file for appending, as a file handler of \<open>logging\<close> does when it is
  constructed: the file is created empty when it is missing.\<close>

definition open_append :: "string \<Rightarrow> filesystem \<Rightarrow> exn + filesystem" where
  "open_append s f =
     (case nodes f s of
        None \<Rightarrow> Inr (f\<lparr>nodes := (nodes f)(s \<mapsto> File [])\<rparr>)
      | Some Dir \<Rightarrow> Inl (OtherException ''IsADirectoryError'' s)
      | Some (File d) \<Rightarrow> Inr f)"

section \<open>The logger facility\<close>

record formatter =
  fmt :: string
  datefmt :: string

text \<open>A handler is a value: \<open>RotatingFileHandler filename maxBytes backupCount encoding
  level formatter\<close> or \<open>StreamHandler level formatter\<close>.\<close>

datatype handler =
    RotatingFileHandler string int int string int formatter
  | StreamHandler int formatter

record logger_state =
  level :: int
  handlers :: "handler list"

text \<open>
  The state the program runs in: the file system, the loggers of the \<open>logging\<close> module
  by name (a name never configured has level \<open>NOTSET = 0\<close> and no handler), the module
  global \<open>_logger\<close> (\<open>g_logger\<close>: the name of the logger it holds, if any), the
  environment variables, the directory of \<open>s3_client.py\<close>, and the calls made to logging
  methods so far.
\<close>

record world =
  fs :: filesystem
  loggers :: "string \<Rightarrow> logger_state"
  g_logger :: "string option"
  environ :: "string \<rightharpoonup> string"
  module_dir :: path
  trace :: "log_record list"

definition LOG_DIR :: "world \<Rightarrow> path" where
  "LOG_DIR w = joinpath (module_dir w) ''logs''"

definition LOG_FILE :: "world \<Rightarrow> path" where
  "LOG_FILE w = joinpath (LOG_DIR w) ''s3_client.log''"

definition LOG_FORMAT :: string where
  "LOG_FORMAT = ''%(asctime)s | %(levelname)-8s | %(name)s | %(message)s''"

definition DATE_FORMAT :: string where
  "DATE_FORMAT = ''%Y-%m-%d %H:%M:%S''"

record setup_args =
  arg_level :: int
  log_to_file :: bool
  log_to_console :: bool
  max_bytes :: int
  backup_count :: int

definition default_setup_args :: setup_args where
  "default_setup_args =
     \<lparr>arg_level = INFO, log_to_file = True, log_to_console = True,
      max_bytes = 5 * 1024 * 1024, backup_count = 3\<rparr>"

text \<open>\<open>Logger.addHandler\<close> appends the handler unless that very object is attached
  already; every handler passed here is a new object.\<close>

definition addHandler :: "string \<Rightarrow> handler \<Rightarrow> world \<Rightarrow> world" where
  "addHandler n h w =
     w\<lparr>loggers := (loggers w)(n := (loggers w n)\<lparr>handlers := handlers (loggers w n) @ [h]\<rparr>)\<rparr>"

text \<open>
  \<open>setup_logging\<close>. The result is the name of the configured logger, or the exception of
  the file system that interrupted the call; the world is returned as the call left it.
\<close>

definition setup_logging :: "setup_args \<Rightarrow> world \<Rightarrow> (exn + string) \<times> world" where
  "setup_logging a w =
     (let logger = ''s3_client'';
          w1 = w\<lparr>loggers := (loggers w)(logger := (loggers w logger)\<lparr>level := arg_level a\<rparr>)\<rparr>;
          w2 = w1\<lparr>loggers := (loggers w1)(logger := (loggers w1 logger)\<lparr>handlers := []\<rparr>)\<rparr>;
          formatter = \<lparr>fmt = LOG_FORMAT, datefmt = DATE_FORMAT\<rparr>;
          console = (\<lambda>w'. if log_to_console a
                           then addHandler logger (StreamHandler (arg_level a) formatter) w'
                           else w')
      in if log_to_file a then
           (case mkdir_parents (LOG_DIR w2) (fs w2) of
              Inl e \<Rightarrow> (Inl e, w2)
            | Inr f1 \<Rightarrow>
                (case open_append (str_path (LOG_FILE w2)) f1 of
                   Inl e \<Rightarrow> (Inl e, w2\<lparr>fs := f1\<rparr>)
                 | Inr f2 \<Rightarrow>
                     (Inr logger,
                      console
                        (addHandler logger
                           (RotatingFileHandler (str_path (LOG_FILE w2)) (max_bytes a)
                              (backup_count a) ''utf-8'' (arg_level a) formatter)
                           (w2\<lparr>fs := f2\<rparr>)))))
         else (Inr logger, console w2))"

text \<open>\<open>get_logger\<close>: the module global is set only when \<open>setup_logging\<close> returns.\<close>

definition get_logger :: "world \<Rightarrow> (exn + string) \<times> world" where
  "get_logger w =
     (case g_logger w of
        None \<Rightarrow>
          (case setup_logging default_setup_args w of
             (Inl e, w') \<Rightarrow> (Inl e, w')
           | (Inr l, w') \<Rightarrow> (Inr l, w'\<lparr>g_logger := Some l\<rparr>))
      | Some l \<Rightarrow> (Inr l, w))"

text \<open>The logging methods the client calls on its logger.\<close>

definition log_debug :: "string \<Rightarrow> message \<Rightarrow> world \<Rightarrow> world" where
  "log_debug l m w = w\<lparr>trace := trace w @ [LogRecord l DEBUG False m]\<rparr>"

definition log_info :: "string \<Rightarrow> message \<Rightarrow> world \<Rightarrow> world" where
  "log_info l m w = w\<lparr>trace := trace w @ [LogRecord l INFO False m]\<rparr>"

definition log_exception :: "string \<Rightarrow> message \<Rightarrow> world \<Rightarrow> world" where
  "log_exception l m w = w\<lparr>trace := trace w @ [LogRecord l ERROR True m]\<rparr>"

section \<open>The storage client\<close>

subsection \<open>The SDK\<close>

text \<open>
  The pages of \<open>paginator.paginate(...)\<close>, read one at a time: the backend may raise
  before any page. A page is the dictionary of the response; only its key \<open>Contents\<close> is
  read, absent when the page has no entry.
\<close>

datatype page = Page (Contents: "dict list option")

datatype page_iter = StopIteration | Yield page page_iter | Raise exn

text \<open>
  The boto3 client (\<open>self._client\<close>) is not code of the repository: it is a parameter,
  one function for each call the methods make. The answers do not depend on the world:
  the bucket is not written to, and is taken not to change between calls.
  \<^item> \<open>paginate bucket prefix max_keys delimiter\<close>: the paginator of \<open>list_objects_v2\<close>;
  \<^item> \<open>sdk_download_file bucket key filename\<close>: the managed transfer to a local file;
  \<^item> \<open>get_object bucket key\<close>: the call and the \<open>read()\<close> of the body;
  \<^item> \<open>generate_presigned_url method bucket key expires_in\<close>;
  \<^item> \<open>head_object bucket key\<close>: the response dictionary.
\<close>

record sdk_client =
  paginate :: "string \<Rightarrow> string \<Rightarrow> int \<Rightarrow> string \<Rightarrow> page_iter"
  sdk_download_file :: "string \<Rightarrow> string \<Rightarrow> string \<Rightarrow> filesystem \<Rightarrow> exn + filesystem"
  get_object :: "string \<Rightarrow> string \<Rightarrow> exn + bytes"
  generate_presigned_url :: "string \<Rightarrow> string \<Rightarrow> string \<Rightarrow> int \<Rightarrow> exn + string"
  head_object :: "string \<Rightarrow> string \<Rightarrow> exn + dict"

text \<open>\<open>boto3.Session(**session_kwargs).client("s3", **client_kwargs)\<close>, a parameter too.\<close>

type_synonym kwargs = "(string \<times> string) list"

type_synonym boto3 = "kwargs \<Rightarrow> kwargs \<Rightarrow> exn + sdk_client"

subsection \<open>Construction\<close>

text \<open>Truth of an optional string: \<open>None\<close> and the empty string are false.\<close>

fun truthy :: "string option \<Rightarrow> bool" where
  "truthy None = False"
| "truthy (Some s) = (s \<noteq> [])"

text \<open>\<open>a or b\<close>.\<close>

definition py_or :: "string option \<Rightarrow> string option \<Rightarrow> string option" where
  "py_or a b = (if truthy a then a else b)"

text \<open>\<open>os.getenv(k)\<close> and \<open>os.getenv(k, d)\<close>.\<close>

definition getenv :: "world \<Rightarrow> string \<Rightarrow> string option" where
  "getenv w k = environ w k"

definition getenv_default :: "world \<Rightarrow> string \<Rightarrow> string \<Rightarrow> string" where
  "getenv_default w k d = (case environ w k of None \<Rightarrow> d | Some v \<Rightarrow> v)"

record init_args =
  region_name :: "string option"
  aws_access_key_id :: "string option"
  aws_secret_access_key :: "string option"
  endpoint_url :: "string option"
  logger :: "string option"

text \<open>The four local variables of \<open>__init__\<close> after lines 97 to 100.\<close>

record resolved =
  r_region_name :: string
  r_aws_access_key_id :: "string option"
  r_aws_secret_access_key :: "string option"
  r_endpoint_url :: "string option"

definition resolve :: "init_args \<Rightarrow> world \<Rightarrow> resolved" where
  "resolve a w =
     \<lparr>r_region_name =
        (case region_name a of
           None \<Rightarrow> getenv_default w ''AWS_REGION'' ''ru-central1''
         | Some r \<Rightarrow> if r \<noteq> [] then r else getenv_default w ''AWS_REGION'' ''ru-central1''),
      r_aws_access_key_id = py_or (aws_access_key_id a) (getenv w ''AWS_ACCESS_KEY_ID''),
      r_aws_secret_access_key = py_or (aws_secret_access_key a) (getenv w ''AWS_SECRET_ACCESS_KEY''),
      r_endpoint_url = py_or (endpoint_url a) (getenv w ''AWS_ENDPOINT_URL'')\<rparr>"

definition session_kwargs :: "resolved \<Rightarrow> kwargs" where
  "session_kwargs r =
     [(''region_name'', r_region_name r)] @
     (case (r_aws_access_key_id r, r_aws_secret_access_key r) of
        (Some k, Some s) \<Rightarrow>
          if k \<noteq> [] \<and> s \<noteq> []
          then [(''aws_access_key_id'', k), (''aws_secret_access_key'', s)] else []
      | _ \<Rightarrow> [])"

definition client_kwargs :: "resolved \<Rightarrow> kwargs" where
  "client_kwargs r =
     (case r_endpoint_url r of
        Some u \<Rightarrow> if u \<noteq> [] then [(''endpoint_url'', u)] else []
      | None \<Rightarrow> [])"

record s3client =
  bucket :: string
  log :: string
  client :: sdk_client

text \<open>\<open>S3Client.__init__\<close>. A logger object is always true, so \<open>logger or get_logger()\<close>
  calls \<open>get_logger\<close> exactly when no logger is passed.\<close>

definition init :: "boto3 \<Rightarrow> string \<Rightarrow> init_args \<Rightarrow> world \<Rightarrow> (exn + s3client) \<times> world" where
  "init sdk b a w =
     (case (case logger a of Some l \<Rightarrow> (Inr l, w) | None \<Rightarrow> get_logger w) of
        (Inl e, w1) \<Rightarrow> (Inl e, w1)
      | (Inr l, w1) \<Rightarrow>
          (let r = resolve a w1
           in case sdk (session_kwargs r) (client_kwargs r) of
                Inl e \<Rightarrow> (Inl e, w1)
              | Inr c \<Rightarrow>
                  (Inr \<lparr>bucket = b, log = l, client = c\<rparr>,
                   log_info l (M_client_init b (r_region_name r)) w1)))"

subsection \<open>The operations\<close>

text \<open>\<open>d.get(k)\<close>.\<close>

definition dict_get :: "dict \<Rightarrow> string \<Rightarrow> pyval" where
  "dict_get d k = (case map_of d k of None \<Rightarrow> PNone | Some v \<Rightarrow> v)"

text \<open>\<open>except ClientError as e: self.log.exception(...); raise\<close>: an exception of another
  class passes the clause untouched.\<close>

definition except_ClientError ::
  "string \<Rightarrow> (exn \<Rightarrow> message) \<Rightarrow> exn \<Rightarrow> world \<Rightarrow> (exn + 'a) \<times> world" where
  "except_ClientError l m e w =
     (case e of
        ClientError c d \<Rightarrow> (Inl e, log_exception l (m e) w)
      | OtherException c d \<Rightarrow> (Inl e, w))"

text \<open>The inner loop of \<open>list_objects\<close>: \<open>obj["Key"]\<close> raises \<open>KeyError\<close> when the key is
  missing, \<open>obj.get\<close> does not.\<close>

fun append_entries :: "dict list \<Rightarrow> dict list \<Rightarrow> exn + dict list" where
  "append_entries [] result = Inr result"
| "append_entries (obj # objs) result =
     (case map_of obj ''Key'' of
        None \<Rightarrow> Inl (OtherException ''KeyError'' ''Key'')
      | Some k \<Rightarrow>
          append_entries objs
            (result @
             [[(''Key'', k),
               (''Size'', case map_of obj ''Size'' of None \<Rightarrow> PInt 0 | Some v \<Rightarrow> v),
               (''LastModified'', case map_of obj ''LastModified'' of None \<Rightarrow> PNone | Some v \<Rightarrow> v),
               (''ETag'', case map_of obj ''ETag'' of None \<Rightarrow> PNone | Some v \<Rightarrow> v)]]))"

text \<open>The outer loop, over the pages.\<close>

fun collect_pages :: "page_iter \<Rightarrow> dict list \<Rightarrow> exn + dict list" where
  "collect_pages StopIteration result = Inr result"
| "collect_pages (Raise e) result = Inl e"
| "collect_pages (Yield pg rest) result =
     (case append_entries (case Contents pg of None \<Rightarrow> [] | Some objs \<Rightarrow> objs) result of
        Inl e \<Rightarrow> Inl e
      | Inr result' \<Rightarrow> collect_pages rest result')"

text \<open>\<open>delimiter or ""\<close> is the delimiter itself, and the empty string for \<open>None\<close>.\<close>

definition list_objects ::
  "s3client \<Rightarrow> string \<Rightarrow> int \<Rightarrow> string option \<Rightarrow> world \<Rightarrow> (exn + dict list) \<times> world" where
  "list_objects self pfx max_keys delimiter w =
     (let w1 = log_debug (log self) (M_list_objects pfx max_keys) w
      in case collect_pages
                (paginate (client self) (bucket self) pfx max_keys
                   (case delimiter of None \<Rightarrow> [] | Some d \<Rightarrow> d)) [] of
           Inr result \<Rightarrow>
             (Inr result, log_info (log self) (M_list_objects_count (length result) pfx) w1)
         | Inl e \<Rightarrow> except_ClientError (log self) M_list_objects_error e w1)"

text \<open>A path argument is a string or a \<open>Path\<close>; a \<open>Path\<close> is always true.\<close>

datatype pathlike = AsStr string | AsPath path

fun to_Path :: "pathlike \<Rightarrow> path" where
  "to_Path (AsStr s) = Path s"
| "to_Path (AsPath p) = p"

fun truthy_path :: "pathlike option \<Rightarrow> bool" where
  "truthy_path None = False"
| "truthy_path (Some (AsStr s)) = (s \<noteq> [])"
| "truthy_path (Some (AsPath p)) = True"

text \<open>The destination of \<open>download_file\<close>: the value of \<open>local_path\<close> after lines 160
  to 164.\<close>

definition destination :: "string \<Rightarrow> pathlike option \<Rightarrow> pathlike option \<Rightarrow> path" where
  "destination key local_path local_dir =
     (let local_path1 = (case local_path of
                           None \<Rightarrow> None
                         | Some p \<Rightarrow> if truthy_path local_path then Some (to_Path p) else None);
          local_dir1 = (case local_dir of
                          None \<Rightarrow> Path ''.''
                        | Some d \<Rightarrow> if truthy_path local_dir then to_Path d else Path ''.'')
      in case local_path1 of
           None \<Rightarrow> joinpath local_dir1 (name (Path key))
         | Some p \<Rightarrow> p)"

text \<open>\<open>download_file\<close>, from line 166 on. The \<open>mkdir\<close> is outside the \<open>try\<close>, the
  \<open>stat\<close> inside.\<close>

definition download_file ::
  "s3client \<Rightarrow> string \<Rightarrow> pathlike option \<Rightarrow> pathlike option \<Rightarrow> world \<Rightarrow> (exn + path) \<times> world" where
  "download_file self key local_path local_dir w =
     (let local_path' = destination key local_path local_dir
      in case mkdir_parents (parent local_path') (fs w) of
           Inl e \<Rightarrow> (Inl e, w)
         | Inr f1 \<Rightarrow>
             (let w1 = log_info (log self) (M_download_file key local_path') (w\<lparr>fs := f1\<rparr>)
              in case sdk_download_file (client self) (bucket self) key (str_path local_path') (fs w1) of
                   Inl e \<Rightarrow> except_ClientError (log self) (M_download_file_error key) e w1
                 | Inr f2 \<Rightarrow>
                     (case st_size local_path' f2 of
                        Inl e \<Rightarrow>
                          except_ClientError (log self) (M_download_file_error key) e (w1\<lparr>fs := f2\<rparr>)
                      | Inr sz \<Rightarrow>
                          (Inr local_path',
                           log_info (log self) (M_download_file_size sz) (w1\<lparr>fs := f2\<rparr>)))))"

definition download_file_to_buffer :: "s3client \<Rightarrow> string \<Rightarrow> world \<Rightarrow> (exn + bytes) \<times> world" where
  "download_file_to_buffer self key w =
     (let w1 = log_debug (log self) (M_to_buffer key) w
      in case get_object (client self) (bucket self) key of
           Inr data \<Rightarrow> (Inr data, log_info (log self) (M_to_buffer_size key (length data)) w1)
         | Inl e \<Rightarrow> except_ClientError (log self) (M_to_buffer_error key) e w1)"

definition get_presigned_url ::
  "s3client \<Rightarrow> string \<Rightarrow> int \<Rightarrow> string \<Rightarrow> world \<Rightarrow> (exn + string) \<times> world" where
  "get_presigned_url self key expiration method w =
     (let w1 = log_debug (log self) (M_presigned_url key expiration) w
      in case generate_presigned_url (client self) method (bucket self) key expiration of
           Inr url \<Rightarrow> (Inr url, log_info (log self) (M_presigned_url_done key) w1)
         | Inl e \<Rightarrow> except_ClientError (log self) (M_presigned_url_error key) e w1)"

definition get_object_metadata :: "s3client \<Rightarrow> string \<Rightarrow> world \<Rightarrow> (exn + dict) \<times> world" where
  "get_object_metadata self key w =
     (let w1 = log_debug (log self) (M_metadata key) w
      in case head_object (client self) (bucket self) key of
           Inr response \<Rightarrow>
             (let meta = [(''ContentLength'', dict_get response ''ContentLength''),
                          (''LastModified'', dict_get response ''LastModified''),
                          (''ContentType'', dict_get response ''ContentType''),
                          (''ETag'', dict_get response ''ETag'')]
              in (Inr meta, log_info (log self) (M_metadata_size key (dict_get meta ''ContentLength'')) w1))
         | Inl e \<Rightarrow> except_ClientError (log self) (M_metadata_error key) e w1)"

section \<open>Notions the properties are stated with\<close>

text \<open>What a page iterator holds: its pages, and the exception that ends it, if any.\<close>

fun pages_of :: "page_iter \<Rightarrow> page list" where
  "pages_of StopIteration = []"
| "pages_of (Raise e) = []"
| "pages_of (Yield pg rest) = pg # pages_of rest"

fun raised :: "page_iter \<Rightarrow> exn option" where
  "raised StopIteration = None"
| "raised (Raise e) = Some e"
| "raised (Yield pg rest) = raised rest"

definition entries_of :: "page \<Rightarrow> dict list" where
  "entries_of pg = (case Contents pg of None \<Rightarrow> [] | Some objs \<Rightarrow> objs)"

text \<open>
  The listing as the specification words it: one record for each raw entry, with the
  fields \<open>Key\<close>, \<open>Size\<close>, \<open>LastModified\<close> and \<open>ETag\<close>, the size \<open>0\<close> when the raw
  entry has none; the records of all pages, in the order of the pages and of their
  entries.
\<close>

definition listing_record :: "dict \<Rightarrow> dict" where
  "listing_record obj =
     [(''Key'', dict_get obj ''Key''),
      (''Size'', case map_of obj ''Size'' of None \<Rightarrow> PInt 0 | Some v \<Rightarrow> v),
      (''LastModified'', dict_get obj ''LastModified''),
      (''ETag'', dict_get obj ''ETag'')]"

definition listing :: "page list \<Rightarrow> dict list" where
  "listing pgs = concat (map (\<lambda>pg. map listing_record (entries_of pg)) pgs)"

definition raw_entries :: "page list \<Rightarrow> dict list" where
  "raw_entries pgs = concat (map entries_of pgs)"

text \<open>The key of an entry starts with a prefix (\<open>str.startswith\<close>).\<close>

definition key_startswith :: "string \<Rightarrow> dict \<Rightarrow> bool" where
  "key_startswith pfx obj =
     (case map_of obj ''Key'' of Some (PStr k) \<Rightarrow> prefix pfx k | _ \<Rightarrow> False)"

text \<open>The number of failures logged so far: the calls of \<open>Logger.exception\<close>.\<close>

definition failures_logged :: "world \<Rightarrow> nat" where
  "failures_logged w = length (filter rec_exc_info (trace w))"

text \<open>The destination as the specification words it, \<open>local_path\<close> being given when it
  is not \<open>None\<close>.\<close>

definition destination_as_specified :: "string \<Rightarrow> pathlike option \<Rightarrow> pathlike option \<Rightarrow> path" where
  "destination_as_specified key local_path local_dir =
     (case local_path of
        Some p \<Rightarrow> to_Path p
      | None \<Rightarrow> joinpath (case local_dir of None \<Rightarrow> Path ''.'' | Some d \<Rightarrow> to_Path d)
                  (name (Path key)))"

text \<open>The sinks a call of \<open>setup_logging\<close> attaches.\<close>

definition sinks :: "setup_args \<Rightarrow> world \<Rightarrow> handler list" where
  "sinks a w =
     (if log_to_file a
      then [RotatingFileHandler (str_path (LOG_FILE w)) (max_bytes a) (backup_count a) ''utf-8''
              (arg_level a) \<lparr>fmt = LOG_FORMAT, datefmt = DATE_FORMAT\<rparr>]
      else []) @
     (if log_to_console a
      then [StreamHandler (arg_level a) \<lparr>fmt = LOG_FORMAT, datefmt = DATE_FORMAT\<rparr>]
      else [])"

section \<open>Concrete backends and worlds\<close>

text \<open>
  An in-memory bucket for concrete runs: \<open>listed\<close> are the raw entries the listing
  answers with (those whose key starts with the prefix, one on each page), \<open>objs\<close> the
  objects by key.
\<close>

fun iter_of :: "page list \<Rightarrow> page_iter" where
  "iter_of [] = StopIteration"
| "iter_of (pg # pgs) = Yield pg (iter_of pgs)"

definition no_such_key :: exn where
  "no_such_key = ClientError ''NoSuchKey'' ''The specified key does not exist.''"

definition mem_sdk :: "dict list \<Rightarrow> (string \<times> bytes) list \<Rightarrow> sdk_client" where
  "mem_sdk listed objs =
     \<lparr>paginate = (\<lambda>b pfx mk d.
        iter_of (map (\<lambda>obj. Page (Some [obj])) (filter (key_startswith pfx) listed))),
      sdk_download_file = (\<lambda>b k fname f.
        case map_of objs k of
          None \<Rightarrow> Inl no_such_key
        | Some d \<Rightarrow> Inr (f\<lparr>nodes := (nodes f)(fname \<mapsto> File d)\<rparr>)),
      get_object = (\<lambda>b k. case map_of objs k of None \<Rightarrow> Inl no_such_key | Some d \<Rightarrow> Inr d),
      generate_presigned_url = (\<lambda>m b k e. Inr (''https://'' @ b @ ''.example/'' @ k)),
      head_object = (\<lambda>b k.
        case map_of objs k of
          None \<Rightarrow> Inl no_such_key
        | Some d \<Rightarrow> Inr [(''ContentLength'', PInt (int (length d)))])\<rparr>"

text \<open>A backend whose every call raises the same exception.\<close>

definition failing_sdk :: "exn \<Rightarrow> sdk_client" where
  "failing_sdk e =
     \<lparr>paginate = (\<lambda>b pfx mk d. Raise e),
      sdk_download_file = (\<lambda>b k fname f. Inl e),
      get_object = (\<lambda>b k. Inl e),
      generate_presigned_url = (\<lambda>m b k x. Inl e),
      head_object = (\<lambda>b k. Inl e)\<rparr>"

text \<open>The bucket of the specification's example: \<open>a.txt\<close> of 5 bytes and
  \<open>uploads/b.txt\<close> of 10 bytes. The second entry of the listing has only its key.\<close>

definition example_objs :: "(string \<times> bytes) list" where
  "example_objs = [(''a.txt'', [1, 2, 3, 4, 5]), (''uploads/b.txt'', [0, 1, 2, 3, 4, 5, 6, 7, 8, 9])]"

definition example_listed :: "dict list" where
  "example_listed =
     [[(''Key'', PStr ''a.txt''), (''Size'', PInt 5), (''LastModified'', PDatetime 1700000000),
       (''ETag'', PStr ''e1'')],
      [(''Key'', PStr ''uploads/b.txt'')],
      [(''Key'', PStr ''uploads/c.txt''), (''Size'', PInt 7), (''ETag'', PStr ''e3'')]]"

definition example_client :: s3client where
  "example_client = \<lparr>bucket = ''test-bucket'', log = ''s3_client'', client = mem_sdk example_listed example_objs\<rparr>"

definition failing_client :: "exn \<Rightarrow> s3client" where
  "failing_client e = \<lparr>bucket = ''test-bucket'', log = ''s3_client'', client = failing_sdk e\<rparr>"

definition access_denied :: exn where
  "access_denied = ClientError ''AccessDenied'' ''Access Denied''"

definition network_failure :: exn where
  "network_failure = OtherException ''EndpointConnectionError'' ''Could not connect to the endpoint URL''"

text \<open>A world at the start of the process: an empty file system, no logger configured,
  no environment variable set.\<close>

definition world0 :: world where
  "world0 =
     \<lparr>fs = \<lparr>nodes = Map.empty, dir_st_size = 4096\<rparr>,
      loggers = (\<lambda>n. \<lparr>level = 0, handlers = []\<rparr>),
      g_logger = None,
      environ = Map.empty,
      module_dir = PurePath ''/'' [''app''],
      trace = []\<rparr>"

definition no_args :: init_args where
  "no_args =
     \<lparr>region_name = None, aws_access_key_id = None, aws_secret_access_key = None,
      endpoint_url = None, logger = None\<rparr>"

text \<open>A boto3 that builds the in-memory bucket whatever it is given, and a world with
  the environment variables of an installation.\<close>

definition mem_boto3 :: boto3 where
  "mem_boto3 skw ckw = Inr (mem_sdk example_listed example_objs)"

definition world_env :: world where
  "world_env =
     world0\<lparr>environ := [''AWS_REGION'' \<mapsto> ''eu-west-1'',
                         ''AWS_ACCESS_KEY_ID'' \<mapsto> ''ENVKEY'',
                         ''AWS_SECRET_ACCESS_KEY'' \<mapsto> ''ENVSECRET'']\<rparr>"

text \<open>A boto3 whose client shows what it was built from: the URL it signs spells the
  keyword arguments of the session, then those of the client.\<close>

fun render_kwargs :: "kwargs \<Rightarrow> string" where
  "render_kwargs [] = []"
| "render_kwargs ((k, v) # kvs) = k @ ''='' @ v @ '';'' @ render_kwargs kvs"

definition echo_sdk :: "kwargs \<Rightarrow> kwargs \<Rightarrow> sdk_client" where
  "echo_sdk skw ckw =
     (mem_sdk example_listed example_objs)
       \<lparr>generate_presigned_url :=
          (\<lambda>m b k e. Inr (render_kwargs skw @ ''|'' @ render_kwargs ckw))\<rparr>"

definition echo_boto3 :: boto3 where
  "echo_boto3 skw ckw = Inr (echo_sdk skw ckw)"

section \<open>The listing\<close>

lemma append_entries_step:
  "map_of obj ''Key'' = Some k \<Longrightarrow>
     append_entries (obj # objs) acc = append_entries objs (acc @ [listing_record obj])"
  by (simp add: listing_record_def dict_get_def)

lemma append_entries_KeyError:
  "map_of obj ''Key'' = None \<Longrightarrow>
     append_entries (obj # objs) acc = Inl (OtherException ''KeyError'' ''Key'')"
  by simp

lemma append_entries_Inr:
  "append_entries objs acc = Inr res \<Longrightarrow>
     res = acc @ map listing_record objs \<and> (\<forall>obj\<in>set objs. map_of obj ''Key'' \<noteq> None)"
proof (induction objs arbitrary: acc)
  case Nil
  then show ?case by simp
next
  case (Cons obj objs)
  show ?case
  proof (cases "map_of obj ''Key''")
    case None
    with Cons.prems show ?thesis by (simp only: append_entries_KeyError) simp
  next
    case (Some k)
    with Cons.prems have "append_entries objs (acc @ [listing_record obj]) = Inr res"
      by (simp only: append_entries_step)
    from Cons.IH [OF this] Some show ?thesis by simp
  qed
qed

lemma append_entries_total:
  "\<forall>obj\<in>set objs. map_of obj ''Key'' \<noteq> None \<Longrightarrow>
     append_entries objs acc = Inr (acc @ map listing_record objs)"
proof (induction objs arbitrary: acc)
  case Nil
  then show ?case by simp
next
  case (Cons obj objs)
  then obtain k where k: "map_of obj ''Key'' = Some k" by auto
  have "append_entries objs (acc @ [listing_record obj])
          = Inr ((acc @ [listing_record obj]) @ map listing_record objs)"
    using Cons.prems by (intro Cons.IH) simp
  then show ?case by (simp only: append_entries_step [OF k]) simp
qed

lemma append_entries_Inl:
  "append_entries objs acc = Inl e \<Longrightarrow> e = OtherException ''KeyError'' ''Key''"
proof (induction objs arbitrary: acc)
  case Nil
  then show ?case by simp
next
  case (Cons obj objs)
  show ?case
  proof (cases "map_of obj ''Key''")
    case None
    with Cons.prems show ?thesis by (simp only: append_entries_KeyError) simp
  next
    case (Some k)
    with Cons.prems have "append_entries objs (acc @ [listing_record obj]) = Inl e"
      by (simp only: append_entries_step)
    from Cons.IH [OF this] show ?thesis .
  qed
qed

lemma collect_pages_Inr:
  "collect_pages it acc = Inr res \<Longrightarrow>
     res = acc @ listing (pages_of it) \<and> raised it = None \<and>
     (\<forall>pg\<in>set (pages_of it). \<forall>obj\<in>set (entries_of pg). map_of obj ''Key'' \<noteq> None)"
proof (induction it arbitrary: acc)
  case StopIteration
  then show ?case by (simp add: listing_def)
next
  case (Yield pg rest)
  from Yield.prems obtain mid where
    a: "append_entries (entries_of pg) acc = Inr mid" and
    c: "collect_pages rest mid = Inr res"
    by (auto simp: entries_of_def split: sum.splits)
  from append_entries_Inr [OF a] Yield.IH [OF c] show ?case
    by (simp add: listing_def)
next
  case (Raise e)
  then show ?case by simp
qed

lemma collect_pages_total:
  "raised it = None \<Longrightarrow>
   \<forall>pg\<in>set (pages_of it). \<forall>obj\<in>set (entries_of pg). map_of obj ''Key'' \<noteq> None \<Longrightarrow>
   collect_pages it acc = Inr (acc @ listing (pages_of it))"
proof (induction it arbitrary: acc)
  case StopIteration
  then show ?case by (simp add: listing_def)
next
  case (Yield pg rest)
  have a: "append_entries (entries_of pg) acc = Inr (acc @ map listing_record (entries_of pg))"
    using Yield.prems(2) by (intro append_entries_total) simp
  have "collect_pages rest (acc @ map listing_record (entries_of pg))
          = Inr ((acc @ map listing_record (entries_of pg)) @ listing (pages_of rest))"
    using Yield.prems by (intro Yield.IH) simp_all
  with a show ?case
    by (simp add: listing_def entries_of_def)
next
  case (Raise e)
  then show ?case by simp
qed

lemma collect_pages_raised:
  "collect_pages it acc = Inl e \<Longrightarrow> raised it = Some e \<or> e = OtherException ''KeyError'' ''Key''"
proof (induction it arbitrary: acc)
  case StopIteration
  then show ?case by simp
next
  case (Yield pg rest)
  show ?case
  proof (cases "append_entries (entries_of pg) acc")
    case (Inl e')
    with Yield.prems have "e' = e" by (simp add: entries_of_def)
    with Inl append_entries_Inl show ?thesis by blast
  next
    case (Inr mid)
    with Yield.prems have "collect_pages rest mid = Inl e" by (simp add: entries_of_def)
    from Yield.IH [OF this] show ?thesis by simp
  qed
next
  case (Raise e')
  then show ?case by simp
qed


lemma listing_raw_entries: "listing pgs = map listing_record (raw_entries pgs)"
  by (induction pgs) (simp_all add: listing_def raw_entries_def)

lemma list_objects_Inr:
  assumes "fst (list_objects self pfx max_keys delimiter w) = Inr result"
  shows "collect_pages (paginate (client self) (bucket self) pfx max_keys
           (case delimiter of None \<Rightarrow> [] | Some d \<Rightarrow> d)) [] = Inr result"
  using assms
  by (auto simp: list_objects_def Let_def except_ClientError_def split: sum.splits exn.splits)

text \<open>
  C2. Whatever the bucket, the prefix, \<open>max_keys\<close> and the delimiter: when the paginator
  hands out its pages without raising and every raw entry has its key, \<open>list_objects\<close>
  returns the whole listing, the records of all pages in the order of the pages and of
  their entries; every record has exactly the fields \<open>Key\<close>, \<open>Size\<close>, \<open>LastModified\<close>
  and \<open>ETag\<close>, with the key and the size of the raw entry, the size \<open>0\<close> when the raw
  entry has none.
\<close>

theorem list_objects_returns_listing:
  assumes "it = paginate (client self) (bucket self) pfx max_keys
                  (case delimiter of None \<Rightarrow> [] | Some d \<Rightarrow> d)"
    and "raised it = None"
    and "\<forall>obj\<in>set (raw_entries (pages_of it)). map_of obj ''Key'' \<noteq> None"
  shows "fst (list_objects self pfx max_keys delimiter w) = Inr (listing (pages_of it))
       \<and> listing (pages_of it) = map listing_record (raw_entries (pages_of it))
       \<and> (\<forall>obj\<in>set (raw_entries (pages_of it)).
             map fst (listing_record obj) = [''Key'', ''Size'', ''LastModified'', ''ETag'']
           \<and> map_of (listing_record obj) ''Key'' = map_of obj ''Key''
           \<and> map_of (listing_record obj) ''Size''
               = Some (case map_of obj ''Size'' of None \<Rightarrow> PInt 0 | Some v \<Rightarrow> v))"
proof -
  have keys: "\<forall>pg\<in>set (pages_of it). \<forall>obj\<in>set (entries_of pg). map_of obj ''Key'' \<noteq> None"
    using assms(3) by (auto simp: raw_entries_def)
  have "collect_pages it [] = Inr ([] @ listing (pages_of it))"
    using assms(2) keys by (rule collect_pages_total)
  then have "fst (list_objects self pfx max_keys delimiter w) = Inr (listing (pages_of it))"
    by (simp add: list_objects_def Let_def assms(1))
  moreover have "\<forall>obj\<in>set (raw_entries (pages_of it)).
             map fst (listing_record obj) = [''Key'', ''Size'', ''LastModified'', ''ETag'']
           \<and> map_of (listing_record obj) ''Key'' = map_of obj ''Key''
           \<and> map_of (listing_record obj) ''Size''
               = Some (case map_of obj ''Size'' of None \<Rightarrow> PInt 0 | Some v \<Rightarrow> v)"
    using assms(3) by (auto simp: listing_record_def dict_get_def)
  ultimately show ?thesis
    by (simp add: listing_raw_entries)
qed

lemma example_paginate_uploads:
  "paginate (client example_client) (bucket example_client) ''uploads/'' 1000 []
     = Yield (Page (Some [[(''Key'', PStr ''uploads/b.txt'')]]))
         (Yield (Page (Some [[(''Key'', PStr ''uploads/c.txt''), (''Size'', PInt 7),
                              (''ETag'', PStr ''e3'')]])) StopIteration)"
  by (simp add: example_client_def mem_sdk_def example_listed_def key_startswith_def)

theorem list_objects_returns_listing_witness:
  "fst (list_objects example_client ''uploads/'' 1000 None world0)
     = Inr [[(''Key'', PStr ''uploads/b.txt''), (''Size'', PInt 0), (''LastModified'', PNone),
             (''ETag'', PNone)],
            [(''Key'', PStr ''uploads/c.txt''), (''Size'', PInt 7), (''LastModified'', PNone),
             (''ETag'', PStr ''e3'')]]"
  using list_objects_returns_listing
    [of "paginate (client example_client) (bucket example_client) ''uploads/'' 1000 []"
        example_client "''uploads/''" 1000 None world0]
  by (simp add: example_paginate_uploads raw_entries_def entries_of_def listing_def
        listing_record_def dict_get_def)

text \<open>
  C10. For every raw entry \<open>list_objects\<close> has processed: a size that is absent becomes
  \<open>0\<close>, while a last-modified time or an ETag that is absent becomes \<open>None\<close> in the
  record returned, so neither field is sure to hold a timestamp or a string.
\<close>

theorem list_objects_absent_fields:
  assumes "fst (list_objects self pfx max_keys delimiter w) = Inr result"
    and "raw = raw_entries (pages_of (paginate (client self) (bucket self) pfx max_keys
                  (case delimiter of None \<Rightarrow> [] | Some d \<Rightarrow> d)))"
  shows "length result = length raw
       \<and> (\<forall>i<length raw.
             (map_of (raw ! i) ''Size'' = None \<longrightarrow> map_of (result ! i) ''Size'' = Some (PInt 0))
           \<and> (map_of (raw ! i) ''LastModified'' = None \<longrightarrow>
                map_of (result ! i) ''LastModified'' = Some PNone)
           \<and> (map_of (raw ! i) ''ETag'' = None \<longrightarrow> map_of (result ! i) ''ETag'' = Some PNone))"
proof -
  have "result = map listing_record raw"
    using collect_pages_Inr [OF list_objects_Inr [OF assms(1)]]
    by (simp add: listing_raw_entries assms(2))
  then show ?thesis
    by (simp add: listing_record_def dict_get_def)
qed

theorem list_objects_absent_fields_witness:
  "fst (list_objects example_client ''uploads/'' 1000 None world0)
     = Inr [listing_record [(''Key'', PStr ''uploads/b.txt'')],
            listing_record [(''Key'', PStr ''uploads/c.txt''), (''Size'', PInt 7),
                            (''ETag'', PStr ''e3'')]]
   \<and> map_of [(''Key'', PStr ''uploads/b.txt'')] ''Size'' = None
   \<and> map_of [(''Key'', PStr ''uploads/b.txt'')] ''LastModified'' = None
   \<and> map_of [(''Key'', PStr ''uploads/b.txt'')] ''ETag'' = None
   \<and> map_of (listing_record [(''Key'', PStr ''uploads/b.txt'')]) ''Size'' = Some (PInt 0)
   \<and> map_of (listing_record [(''Key'', PStr ''uploads/b.txt'')]) ''LastModified'' = Some PNone
   \<and> map_of (listing_record [(''Key'', PStr ''uploads/b.txt'')]) ''ETag'' = Some PNone"
proof -
  let ?raw = "[[(''Key'', PStr ''uploads/b.txt'')],
               [(''Key'', PStr ''uploads/c.txt''), (''Size'', PInt 7), (''ETag'', PStr ''e3'')]]"
  let ?result = "map listing_record ?raw"
  have r: "fst (list_objects example_client ''uploads/'' 1000 None world0) = Inr ?result"
    by (simp add: list_objects_def Let_def example_paginate_uploads listing_record_def
          dict_get_def)
  have raw: "?raw = raw_entries (pages_of (paginate (client example_client)
               (bucket example_client) ''uploads/'' 1000 (case None of None \<Rightarrow> [] | Some d \<Rightarrow> d)))"
    by (simp add: example_paginate_uploads raw_entries_def entries_of_def)
  note step = list_objects_absent_fields [OF r raw, THEN conjunct2, rule_format, of 0]
  have "(map_of (?raw ! 0) ''Size'' = None \<longrightarrow> map_of (?result ! 0) ''Size'' = Some (PInt 0))
      \<and> (map_of (?raw ! 0) ''LastModified'' = None \<longrightarrow>
           map_of (?result ! 0) ''LastModified'' = Some PNone)
      \<and> (map_of (?raw ! 0) ''ETag'' = None \<longrightarrow> map_of (?result ! 0) ''ETag'' = Some PNone)"
    by (rule step) simp
  with r show ?thesis by simp
qed

text \<open>
  C8. For every bucket and prefix: when each entry the paginator hands out for the prefix
  passed to it has a key that starts with that prefix, each entry \<open>list_objects\<close>
  returns has a key that starts with the prefix.
\<close>

theorem list_objects_keys_start_with_prefix:
  assumes "it = paginate (client self) (bucket self) pfx max_keys
                  (case delimiter of None \<Rightarrow> [] | Some d \<Rightarrow> d)"
    and "\<forall>obj\<in>set (raw_entries (pages_of it)). key_startswith pfx obj"
    and "fst (list_objects self pfx max_keys delimiter w) = Inr result"
  shows "\<forall>r\<in>set result. key_startswith pfx r"
proof -
  have "result = map listing_record (raw_entries (pages_of it))"
    using collect_pages_Inr [OF list_objects_Inr [OF assms(3)]]
    by (simp add: listing_raw_entries assms(1))
  moreover have "key_startswith pfx (listing_record obj)" if "key_startswith pfx obj" for obj
    using that by (auto simp: key_startswith_def listing_record_def dict_get_def split: option.splits)
  ultimately show ?thesis
    using assms(2) by auto
qed

theorem list_objects_keys_start_with_prefix_witness:
  "list_all (key_startswith ''uploads/'')
     (raw_entries (pages_of (paginate (client example_client) (bucket example_client)
        ''uploads/'' 1000 [])))
   \<and> fst (list_objects example_client ''uploads/'' 1000 None world0)
       = Inr [listing_record [(''Key'', PStr ''uploads/b.txt'')],
              listing_record [(''Key'', PStr ''uploads/c.txt''), (''Size'', PInt 7),
                              (''ETag'', PStr ''e3'')]]
   \<and> key_startswith ''uploads/'' (listing_record [(''Key'', PStr ''uploads/b.txt'')])
   \<and> key_startswith ''uploads/''
        (listing_record [(''Key'', PStr ''uploads/c.txt''), (''Size'', PInt 7),
                         (''ETag'', PStr ''e3'')])"
proof -
  let ?it = "paginate (client example_client) (bucket example_client) ''uploads/'' 1000 []"
  let ?result = "[listing_record [(''Key'', PStr ''uploads/b.txt'')],
                  listing_record [(''Key'', PStr ''uploads/c.txt''), (''Size'', PInt 7),
                                  (''ETag'', PStr ''e3'')]]"
  have h: "\<forall>obj\<in>set (raw_entries (pages_of ?it)). key_startswith ''uploads/'' obj"
    by (simp add: example_paginate_uploads raw_entries_def entries_of_def key_startswith_def)
  have r: "fst (list_objects example_client ''uploads/'' 1000 None world0) = Inr ?result"
    by (simp add: list_objects_def Let_def example_paginate_uploads listing_record_def
          dict_get_def)
  from list_objects_keys_start_with_prefix [of ?it example_client "''uploads/''" 1000 None, OF _ h r]
  have "\<forall>r\<in>set ?result. key_startswith ''uploads/'' r" by simp
  with h r show ?thesis by (simp add: list_all_iff)
qed

section \<open>Backend failures\<close>

lemma collect_pages_raise:
  "raised it = Some e \<Longrightarrow>
   \<forall>obj\<in>set (raw_entries (pages_of it)). map_of obj ''Key'' \<noteq> None \<Longrightarrow>
   collect_pages it acc = Inl e"
proof (induction it arbitrary: acc)
  case StopIteration
  then show ?case by simp
next
  case (Yield pg rest)
  have "append_entries (entries_of pg) acc = Inr (acc @ map listing_record (entries_of pg))"
    using Yield.prems(2) by (intro append_entries_total) (simp add: raw_entries_def)
  moreover have "collect_pages rest (acc @ map listing_record (entries_of pg)) = Inl e"
    using Yield.prems by (intro Yield.IH) (simp_all add: raw_entries_def)
  ultimately show ?case by (simp add: entries_of_def)
next
  case (Raise e')
  then show ?case by simp
qed

lemma except_ClientError_fst: "fst (except_ClientError l m e w) = Inl e"
  by (cases e) (simp_all add: except_ClientError_def)

lemma except_ClientError_logged:
  "failures_logged (snd (except_ClientError l m e w))
     = failures_logged w + (if is_ClientError e then 1 else 0)"
  by (cases e) (simp_all add: except_ClientError_def failures_logged_def log_exception_def)

lemma failures_logged_simps:
  "failures_logged (log_debug l m w) = failures_logged w"
  "failures_logged (log_info l m w) = failures_logged w"
  "failures_logged (w\<lparr>fs := f\<rparr>) = failures_logged w"
  by (simp_all add: failures_logged_def log_debug_def log_info_def)

lemma except_ClientError_eq:
  "except_ClientError l m e w
     = (Inl e, w\<lparr>trace := trace w @ (if is_ClientError e then [LogRecord l ERROR True (m e)] else [])\<rparr>)"
  by (cases e) (simp_all add: except_ClientError_def log_exception_def)

text \<open>
  C1, amended. For each of the five operations and every exception the SDK raises inside
  it, the exception escapes the operation as it is (it is not translated, the call is not
  tried again, nothing is recovered). When it is a \<open>ClientError\<close>, the last thing the
  operation does before is one call of \<open>Logger.exception\<close> on its logger, with the
  exception in the message: the trace grows by the record of the call that opened the
  operation and by that one record at level \<open>ERROR\<close>, and by nothing else. An SDK
  exception of another class escapes without any record of it: the trace grows by the
  opening record only.
\<close>

theorem backend_failure_reraised:
  "(raised (paginate (client self) (bucket self) pfx max_keys
              (case delimiter of None \<Rightarrow> [] | Some d \<Rightarrow> d)) = Some e
      \<and> (\<forall>obj\<in>set (raw_entries (pages_of (paginate (client self) (bucket self) pfx max_keys
              (case delimiter of None \<Rightarrow> [] | Some d \<Rightarrow> d)))). map_of obj ''Key'' \<noteq> None)
    \<longrightarrow> list_objects self pfx max_keys delimiter w
        = (Inl e,
           w\<lparr>trace := trace w @ [LogRecord (log self) DEBUG False (M_list_objects pfx max_keys)]
                @ (if is_ClientError e
                   then [LogRecord (log self) ERROR True (M_list_objects_error e)] else [])\<rparr>)
      \<and> failures_logged (snd (list_objects self pfx max_keys delimiter w))
          = failures_logged w + (if is_ClientError e then 1 else 0))
 \<and> (\<forall>f1. mkdir_parents (parent (destination key local_path local_dir)) (fs w) = Inr f1
        \<and> sdk_download_file (client self) (bucket self) key
            (str_path (destination key local_path local_dir)) f1 = Inl e
    \<longrightarrow> download_file self key local_path local_dir w
        = (Inl e,
           w\<lparr>fs := f1,
             trace := trace w
                @ [LogRecord (log self) INFO False
                     (M_download_file key (destination key local_path local_dir))]
                @ (if is_ClientError e
                   then [LogRecord (log self) ERROR True (M_download_file_error key e)] else [])\<rparr>)
      \<and> failures_logged (snd (download_file self key local_path local_dir w))
          = failures_logged w + (if is_ClientError e then 1 else 0))
 \<and> (get_object (client self) (bucket self) key = Inl e
    \<longrightarrow> download_file_to_buffer self key w
        = (Inl e,
           w\<lparr>trace := trace w @ [LogRecord (log self) DEBUG False (M_to_buffer key)]
                @ (if is_ClientError e
                   then [LogRecord (log self) ERROR True (M_to_buffer_error key e)] else [])\<rparr>)
      \<and> failures_logged (snd (download_file_to_buffer self key w))
          = failures_logged w + (if is_ClientError e then 1 else 0))
 \<and> (generate_presigned_url (client self) method (bucket self) key expiration = Inl e
    \<longrightarrow> get_presigned_url self key expiration method w
        = (Inl e,
           w\<lparr>trace := trace w @ [LogRecord (log self) DEBUG False (M_presigned_url key expiration)]
                @ (if is_ClientError e
                   then [LogRecord (log self) ERROR True (M_presigned_url_error key e)] else [])\<rparr>)
      \<and> failures_logged (snd (get_presigned_url self key expiration method w))
          = failures_logged w + (if is_ClientError e then 1 else 0))
 \<and> (head_object (client self) (bucket self) key = Inl e
    \<longrightarrow> get_object_metadata self key w
        = (Inl e,
           w\<lparr>trace := trace w @ [LogRecord (log self) DEBUG False (M_metadata key)]
                @ (if is_ClientError e
                   then [LogRecord (log self) ERROR True (M_metadata_error key e)] else [])\<rparr>)
      \<and> failures_logged (snd (get_object_metadata self key w))
          = failures_logged w + (if is_ClientError e then 1 else 0))"
proof (intro conjI allI impI)
  assume "raised (paginate (client self) (bucket self) pfx max_keys
              (case delimiter of None \<Rightarrow> [] | Some d \<Rightarrow> d)) = Some e
      \<and> (\<forall>obj\<in>set (raw_entries (pages_of (paginate (client self) (bucket self) pfx max_keys
              (case delimiter of None \<Rightarrow> [] | Some d \<Rightarrow> d)))). map_of obj ''Key'' \<noteq> None)"
  then have c: "collect_pages (paginate (client self) (bucket self) pfx max_keys
              (case delimiter of None \<Rightarrow> [] | Some d \<Rightarrow> d)) [] = Inl e"
    by (intro collect_pages_raise) simp_all
  show "list_objects self pfx max_keys delimiter w
        = (Inl e,
           w\<lparr>trace := trace w @ [LogRecord (log self) DEBUG False (M_list_objects pfx max_keys)]
                @ (if is_ClientError e
                   then [LogRecord (log self) ERROR True (M_list_objects_error e)] else [])\<rparr>)"
    by (simp add: list_objects_def Let_def c except_ClientError_eq log_debug_def)
  show "failures_logged (snd (list_objects self pfx max_keys delimiter w))
          = failures_logged w + (if is_ClientError e then 1 else 0)"
    by (simp add: list_objects_def Let_def c except_ClientError_logged failures_logged_simps)
next
  fix f1
  assume "mkdir_parents (parent (destination key local_path local_dir)) (fs w) = Inr f1
        \<and> sdk_download_file (client self) (bucket self) key
            (str_path (destination key local_path local_dir)) f1 = Inl e"
  then have m: "mkdir_parents (parent (destination key local_path local_dir)) (fs w) = Inr f1"
    and d: "sdk_download_file (client self) (bucket self) key
            (str_path (destination key local_path local_dir)) f1 = Inl e"
    by simp_all
  have f: "fs (log_info l msg (w\<lparr>fs := f1\<rparr>)) = f1" for l msg
    by (simp add: log_info_def)
  show "download_file self key local_path local_dir w
        = (Inl e,
           w\<lparr>fs := f1,
             trace := trace w
                @ [LogRecord (log self) INFO False
                     (M_download_file key (destination key local_path local_dir))]
                @ (if is_ClientError e
                   then [LogRecord (log self) ERROR True (M_download_file_error key e)] else [])\<rparr>)"
    by (simp add: download_file_def Let_def m f d except_ClientError_eq) (simp add: log_info_def)
  show "failures_logged (snd (download_file self key local_path local_dir w))
          = failures_logged w + (if is_ClientError e then 1 else 0)"
    by (simp add: download_file_def Let_def m f d except_ClientError_logged failures_logged_simps)
next
  assume g: "get_object (client self) (bucket self) key = Inl e"
  show "download_file_to_buffer self key w
        = (Inl e,
           w\<lparr>trace := trace w @ [LogRecord (log self) DEBUG False (M_to_buffer key)]
                @ (if is_ClientError e
                   then [LogRecord (log self) ERROR True (M_to_buffer_error key e)] else [])\<rparr>)"
    by (simp add: download_file_to_buffer_def Let_def g except_ClientError_eq log_debug_def)
  show "failures_logged (snd (download_file_to_buffer self key w))
          = failures_logged w + (if is_ClientError e then 1 else 0)"
    by (simp add: download_file_to_buffer_def Let_def g except_ClientError_logged
          failures_logged_simps)
next
  assume g: "generate_presigned_url (client self) method (bucket self) key expiration = Inl e"
  show "get_presigned_url self key expiration method w
        = (Inl e,
           w\<lparr>trace := trace w @ [LogRecord (log self) DEBUG False (M_presigned_url key expiration)]
                @ (if is_ClientError e
                   then [LogRecord (log self) ERROR True (M_presigned_url_error key e)] else [])\<rparr>)"
    by (simp add: get_presigned_url_def Let_def g except_ClientError_eq log_debug_def)
  show "failures_logged (snd (get_presigned_url self key expiration method w))
          = failures_logged w + (if is_ClientError e then 1 else 0)"
    by (simp add: get_presigned_url_def Let_def g except_ClientError_logged
          failures_logged_simps)
next
  assume g: "head_object (client self) (bucket self) key = Inl e"
  show "get_object_metadata self key w
        = (Inl e,
           w\<lparr>trace := trace w @ [LogRecord (log self) DEBUG False (M_metadata key)]
                @ (if is_ClientError e
                   then [LogRecord (log self) ERROR True (M_metadata_error key e)] else [])\<rparr>)"
    by (simp add: get_object_metadata_def Let_def g except_ClientError_eq log_debug_def)
  show "failures_logged (snd (get_object_metadata self key w))
          = failures_logged w + (if is_ClientError e then 1 else 0)"
    by (simp add: get_object_metadata_def Let_def g except_ClientError_logged
          failures_logged_simps)
qed


lemma destination_example:
  "destination ''a.txt'' None (Some (AsStr ''/tmp/out'')) = PurePath ''/'' [''tmp'', ''out'', ''a.txt'']"
  by (simp add: destination_def Path_def joinpath_def name_def Let_def)

lemma fs_world0: "fs world0 = \<lparr>nodes = Map.empty, dir_st_size = 4096\<rparr>"
  by (simp add: world0_def)

lemma mkdir_example_fs:
  "mkdir_parents (PurePath ''/'' [''tmp'', ''out'']) \<lparr>nodes = Map.empty, dir_st_size = 4096\<rparr>
     = Inr \<lparr>nodes = [''/tmp'' \<mapsto> Dir, ''/tmp/out'' \<mapsto> Dir], dir_st_size = 4096\<rparr>"
  by (simp add: mkdir_parents_def lineage_def str_path_def)

theorem backend_failure_reraised_witness:
  "list_objects (failing_client access_denied) ''uploads/'' 1000 None world0
     = (Inl access_denied,
        world0\<lparr>trace := [LogRecord ''s3_client'' DEBUG False (M_list_objects ''uploads/'' 1000),
                          LogRecord ''s3_client'' ERROR True (M_list_objects_error access_denied)]\<rparr>)
 \<and> download_file (failing_client access_denied) ''a.txt'' None (Some (AsStr ''/tmp/out'')) world0
     = (Inl access_denied,
        world0\<lparr>fs := \<lparr>nodes = [''/tmp'' \<mapsto> Dir, ''/tmp/out'' \<mapsto> Dir], dir_st_size = 4096\<rparr>,
               trace := [LogRecord ''s3_client'' INFO False
                           (M_download_file ''a.txt'' (PurePath ''/'' [''tmp'', ''out'', ''a.txt''])),
                         LogRecord ''s3_client'' ERROR True
                           (M_download_file_error ''a.txt'' access_denied)]\<rparr>)
 \<and> download_file_to_buffer (failing_client access_denied) ''a.txt'' world0
     = (Inl access_denied,
        world0\<lparr>trace := [LogRecord ''s3_client'' DEBUG False (M_to_buffer ''a.txt''),
                          LogRecord ''s3_client'' ERROR True
                            (M_to_buffer_error ''a.txt'' access_denied)]\<rparr>)
 \<and> get_presigned_url (failing_client access_denied) ''a.txt'' 3600 ''get_object'' world0
     = (Inl access_denied,
        world0\<lparr>trace := [LogRecord ''s3_client'' DEBUG False (M_presigned_url ''a.txt'' 3600),
                          LogRecord ''s3_client'' ERROR True
                            (M_presigned_url_error ''a.txt'' access_denied)]\<rparr>)
 \<and> get_object_metadata (failing_client access_denied) ''a.txt'' world0
     = (Inl access_denied,
        world0\<lparr>trace := [LogRecord ''s3_client'' DEBUG False (M_metadata ''a.txt''),
                          LogRecord ''s3_client'' ERROR True
                            (M_metadata_error ''a.txt'' access_denied)]\<rparr>)
 \<and> failures_logged (snd (get_object_metadata (failing_client access_denied) ''a.txt'' world0)) = 1
 \<and> list_objects (failing_client network_failure) ''uploads/'' 1000 None world0
     = (Inl network_failure,
        world0\<lparr>trace := [LogRecord ''s3_client'' DEBUG False (M_list_objects ''uploads/'' 1000)]\<rparr>)"
proof -
  have w: "failures_logged world0 = 0" "trace world0 = []"
    by (simp_all add: failures_logged_def world0_def)
  have c: "is_ClientError access_denied" "\<not> is_ClientError network_failure"
    by (simp_all add: access_denied_def network_failure_def)
  note t = backend_failure_reraised
    [of "failing_client access_denied" "''uploads/''" 1000 None access_denied world0
        "''a.txt''" None "Some (AsStr ''/tmp/out'')" "''get_object''" 3600]
  note n = backend_failure_reraised
    [of "failing_client network_failure" "''uploads/''" 1000 None network_failure world0
        "''a.txt''" None "Some (AsStr ''/tmp/out'')" "''get_object''" 3600]
  have a: "client (failing_client x) = failing_sdk x" "log (failing_client x) = ''s3_client''"
    "bucket (failing_client x) = ''test-bucket''" for x
    by (simp_all add: failing_client_def)
  have s: "paginate (failing_sdk x) b p m d = Raise x"
    "sdk_download_file (failing_sdk x) b k fn f = Inl x"
    "get_object (failing_sdk x) b k = Inl x"
    "generate_presigned_url (failing_sdk x) mt b k ex = Inl x"
    "head_object (failing_sdk x) b k = Inl x" for x b p m d k fn f mt ex
    by (simp_all add: failing_sdk_def)
  show ?thesis
    using t n
    by (simp add: w c a s raw_entries_def destination_example parent_def fs_world0
          mkdir_example_fs failures_logged_def)
qed

text \<open>
  C1 as it is stated fails for a failure of the network: botocore raises
  \<open>EndpointConnectionError\<close>, which is no \<open>ClientError\<close>; it escapes
  \<open>download_file_to_buffer\<close> unchanged, and the operation has logged no failure.
\<close>

theorem network_failure_not_logged:
  "get_object (client (failing_client network_failure)) (bucket (failing_client network_failure))
     ''a.txt'' = Inl network_failure
 \<and> fst (download_file_to_buffer (failing_client network_failure) ''a.txt'' world0)
     = Inl network_failure
 \<and> trace (snd (download_file_to_buffer (failing_client network_failure) ''a.txt'' world0))
     = [LogRecord ''s3_client'' DEBUG False (M_to_buffer ''a.txt'')]
 \<and> failures_logged (snd (download_file_to_buffer (failing_client network_failure) ''a.txt'' world0)) = 0"
  by (simp add: download_file_to_buffer_def Let_def failing_client_def failing_sdk_def
        network_failure_def except_ClientError_def log_debug_def world0_def failures_logged_def)

section \<open>The two downloads\<close>

lemma mkdir_all_keeps:
  "mkdir_all t qs f = Inr f' \<Longrightarrow> nodes f s = Some n \<Longrightarrow> nodes f' s = Some n"
proof (induction qs arbitrary: f)
  case Nil
  then show ?case by simp
next
  case (Cons q qs)
  show ?case
  proof (cases "nodes f (str_path q)")
    case None
    with Cons.prems(1) have r: "mkdir_all t qs (f\<lparr>nodes := (nodes f)(str_path q \<mapsto> Dir)\<rparr>) = Inr f'"
      by simp
    from None Cons.prems(2) have "str_path q \<noteq> s"
      by auto
    with Cons.prems(2) show ?thesis
      by (intro Cons.IH [OF r]) simp
  next
    case (Some nd)
    with Cons.prems have "mkdir_all t qs f = Inr f'"
      by (cases nd) simp_all
    then show ?thesis
      using Cons.prems(2) by (rule Cons.IH)
  qed
qed

lemma mkdir_all_dirs:
  "mkdir_all t qs f = Inr f' \<Longrightarrow> \<forall>q\<in>set qs. nodes f' (str_path q) = Some Dir"
proof (induction qs arbitrary: f)
  case Nil
  then show ?case by simp
next
  case (Cons q qs)
  show ?case
  proof (cases "nodes f (str_path q)")
    case None
    with Cons.prems have r: "mkdir_all t qs (f\<lparr>nodes := (nodes f)(str_path q \<mapsto> Dir)\<rparr>) = Inr f'"
      by simp
    have "nodes f' (str_path q) = Some Dir"
      by (rule mkdir_all_keeps [OF r]) simp
    with Cons.IH [OF r] show ?thesis by simp
  next
    case (Some nd)
    with Cons.prems have d: "nd = Dir" and r: "mkdir_all t qs f = Inr f'"
      by (cases nd; simp)+
    have "nodes f' (str_path q) = Some Dir"
      using r Some d by (intro mkdir_all_keeps [OF r]) simp
    with Cons.IH [OF r] show ?thesis by simp
  qed
qed

lemma download_file_Inr:
  assumes "download_file self key local_path local_dir w = (Inr p, w')"
  shows "p = destination key local_path local_dir
       \<and> (\<exists>f1. mkdir_parents (parent p) (fs w) = Inr f1
             \<and> sdk_download_file (client self) (bucket self) key (str_path p) f1 = Inr (fs w')
             \<and> st_size p (fs w') \<noteq> Inl (OtherException ''FileNotFoundError'' (str_path p)))"
  using assms
  by (auto simp: download_file_def Let_def except_ClientError_def log_info_def
           split: sum.splits exn.splits)

text \<open>
  C4, amended. When \<open>download_file\<close> returns, it returns the destination it has resolved:
  \<open>local_path\<close> when that is given and is not the empty string; otherwise the base name of
  the key under \<open>local_dir\<close>, under the current directory when \<open>local_dir\<close> is \<open>None\<close> or
  the empty string. Before the SDK wrote the file, the parent of the destination and
  every directory above it had been created where missing.
\<close>

theorem download_file_destination:
  assumes "download_file self key local_path local_dir w = (Inr p, w')"
  shows "(\<forall>lp. local_path = Some lp \<and> truthy_path local_path \<longrightarrow> p = to_Path lp)
       \<and> (\<not> truthy_path local_path \<longrightarrow>
            (\<forall>ld. local_dir = Some ld \<and> truthy_path local_dir \<longrightarrow>
                   p = joinpath (to_Path ld) (name (Path key)))
          \<and> (\<not> truthy_path local_dir \<longrightarrow> p = joinpath (Path ''.'') (name (Path key))))
       \<and> (\<exists>f1. mkdir_parents (parent p) (fs w) = Inr f1
             \<and> (\<forall>q\<in>set (lineage (parent p)). nodes f1 (str_path q) = Some Dir)
             \<and> sdk_download_file (client self) (bucket self) key (str_path p) f1 = Inr (fs w'))"
proof -
  from download_file_Inr [OF assms] obtain f1 where
    p: "p = destination key local_path local_dir" and
    m: "mkdir_parents (parent p) (fs w) = Inr f1" and
    d: "sdk_download_file (client self) (bucket self) key (str_path p) f1 = Inr (fs w')"
    by blast
  have "\<forall>q\<in>set (lineage (parent p)). nodes f1 (str_path q) = Some Dir"
    using m by (simp add: mkdir_parents_def mkdir_all_dirs)
  with m d have "\<exists>f1. mkdir_parents (parent p) (fs w) = Inr f1
             \<and> (\<forall>q\<in>set (lineage (parent p)). nodes f1 (str_path q) = Some Dir)
             \<and> sdk_download_file (client self) (bucket self) key (str_path p) f1 = Inr (fs w')"
    by blast
  moreover have "\<forall>lp. local_path = Some lp \<and> truthy_path local_path \<longrightarrow> p = to_Path lp"
    by (auto simp: p destination_def)
  moreover have "\<not> truthy_path local_path \<longrightarrow>
            (\<forall>ld. local_dir = Some ld \<and> truthy_path local_dir \<longrightarrow>
                   p = joinpath (to_Path ld) (name (Path key)))
          \<and> (\<not> truthy_path local_dir \<longrightarrow> p = joinpath (Path ''.'') (name (Path key)))"
    by (auto simp: p destination_def split: option.splits)
  ultimately show ?thesis by blast
qed

lemma download_example:
  "download_file example_client ''a.txt'' None (Some (AsStr ''/tmp/out'')) world0
     = (Inr (PurePath ''/'' [''tmp'', ''out'', ''a.txt'']),
        world0\<lparr>fs := \<lparr>nodes = [''/tmp'' \<mapsto> Dir, ''/tmp/out'' \<mapsto> Dir,
                               ''/tmp/out/a.txt'' \<mapsto> File [1, 2, 3, 4, 5]],
                      dir_st_size = 4096\<rparr>,
               trace := [LogRecord ''s3_client'' INFO False
                           (M_download_file ''a.txt'' (PurePath ''/'' [''tmp'', ''out'', ''a.txt''])),
                         LogRecord ''s3_client'' INFO False (M_download_file_size 5)]\<rparr>)"
  by (simp add: download_file_def Let_def destination_example parent_def mkdir_example_fs
        example_client_def mem_sdk_def example_objs_def log_info_def str_path_def st_size_def
        world0_def)

theorem download_file_destination_witness:
  "download_file example_client ''a.txt'' None (Some (AsStr ''/tmp/out'')) world0
     = (Inr (PurePath ''/'' [''tmp'', ''out'', ''a.txt'']),
        world0\<lparr>fs := \<lparr>nodes = [''/tmp'' \<mapsto> Dir, ''/tmp/out'' \<mapsto> Dir,
                               ''/tmp/out/a.txt'' \<mapsto> File [1, 2, 3, 4, 5]],
                      dir_st_size = 4096\<rparr>,
               trace := [LogRecord ''s3_client'' INFO False
                           (M_download_file ''a.txt'' (PurePath ''/'' [''tmp'', ''out'', ''a.txt''])),
                         LogRecord ''s3_client'' INFO False (M_download_file_size 5)]\<rparr>)
   \<and> \<not> truthy_path None \<and> truthy_path (Some (AsStr ''/tmp/out''))
   \<and> PurePath ''/'' [''tmp'', ''out'', ''a.txt'']
       = joinpath (to_Path (AsStr ''/tmp/out'')) (name (Path ''a.txt''))"
  using download_file_destination [OF download_example] download_example
  by simp

text \<open>
  C4 as it is stated fails when \<open>local_path\<close> is given as the empty string: the
  destination is not that path (the current directory) but the base name of the key
  under \<open>local_dir\<close>.
\<close>

theorem download_file_empty_local_path:
  "fst (download_file example_client ''a.txt'' (Some (AsStr '''')) None world0)
     = Inr (PurePath '''' [''a.txt''])
   \<and> destination_as_specified ''a.txt'' (Some (AsStr '''')) None = PurePath '''' []
   \<and> PurePath '''' [''a.txt''] \<noteq> PurePath '''' []"
  by (simp add: download_file_def Let_def destination_def destination_as_specified_def Path_def
        joinpath_def name_def parent_def mkdir_parents_def lineage_def
        example_client_def mem_sdk_def example_objs_def log_info_def str_path_def st_size_def
        world0_def)

text \<open>
  C3. Under a backend whose transfer to a file writes the bytes that \<open>get_object\<close>
  returns for the same bucket and key: when \<open>download_file\<close> returns a path and
  \<open>download_file_to_buffer\<close> returns bytes for the same key, reading the file at that
  path yields exactly those bytes.
\<close>

theorem download_file_round_trip:
  assumes "\<forall>b k fname f f'. sdk_download_file (client self) b k fname f = Inr f' \<longrightarrow>
             (\<exists>d. get_object (client self) b k = Inr d \<and> nodes f' fname = Some (File d))"
    and "download_file self key local_path local_dir w = (Inr p, w')"
    and "fst (download_file_to_buffer self key v) = Inr data"
  shows "read_bytes p (fs w') = Inr data"
proof -
  from download_file_Inr [OF assms(2)] obtain f1 where
    "sdk_download_file (client self) (bucket self) key (str_path p) f1 = Inr (fs w')"
    by blast
  with assms(1) obtain d where
    g: "get_object (client self) (bucket self) key = Inr d" and
    n: "nodes (fs w') (str_path p) = Some (File d)"
    by blast
  from assms(3) g have "d = data"
    by (simp add: download_file_to_buffer_def Let_def)
  with n show ?thesis
    by (simp add: read_bytes_def)
qed

theorem download_file_round_trip_witness:
  "fst (download_file example_client ''a.txt'' None (Some (AsStr ''/tmp/out'')) world0)
     = Inr (PurePath ''/'' [''tmp'', ''out'', ''a.txt''])
   \<and> fst (download_file_to_buffer example_client ''a.txt'' world0) = Inr [1, 2, 3, 4, 5]
   \<and> read_bytes (PurePath ''/'' [''tmp'', ''out'', ''a.txt''])
       (fs (snd (download_file example_client ''a.txt'' None (Some (AsStr ''/tmp/out'')) world0)))
       = Inr [1, 2, 3, 4, 5]"
proof -
  have c: "\<forall>b k fname f f'. sdk_download_file (client example_client) b k fname f = Inr f' \<longrightarrow>
             (\<exists>d. get_object (client example_client) b k = Inr d \<and> nodes f' fname = Some (File d))"
    by (auto simp: example_client_def mem_sdk_def split: option.splits)
  have b: "fst (download_file_to_buffer example_client ''a.txt'' world0) = Inr [1, 2, 3, 4, 5]"
    by (simp add: download_file_to_buffer_def Let_def example_client_def mem_sdk_def
          example_objs_def)
  from download_file_round_trip [OF c download_example b] b show ?thesis
    by (simp add: download_example)
qed

section \<open>The logger facility, twice\<close>

text \<open>The part of \<open>setup_logging\<close> that touches the file system.\<close>

lemma LOG_paths_update [simp]:
  "LOG_DIR (w\<lparr>loggers := x\<rparr>) = LOG_DIR w"
  "LOG_FILE (w\<lparr>loggers := x\<rparr>) = LOG_FILE w"
  "LOG_DIR (w\<lparr>fs := f\<rparr>) = LOG_DIR w"
  "LOG_FILE (w\<lparr>fs := f\<rparr>) = LOG_FILE w"
  by (simp_all add: LOG_DIR_def LOG_FILE_def)

lemma setup_logging_no_file:
  "\<not> log_to_file a \<Longrightarrow>
     fst (setup_logging a w) = Inr ''s3_client''
   \<and> fs (snd (setup_logging a w)) = fs w
   \<and> handlers (loggers (snd (setup_logging a w)) ''s3_client'') = sinks a w"
  by (simp add: setup_logging_def Let_def addHandler_def sinks_def)

lemma setup_logging_mkdir_fails:
  "log_to_file a \<Longrightarrow> mkdir_parents (LOG_DIR w) (fs w) = Inl e \<Longrightarrow>
     fst (setup_logging a w) = Inl e \<and> fs (snd (setup_logging a w)) = fs w"
  by (simp add: setup_logging_def Let_def)

lemma setup_logging_open_fails:
  "log_to_file a \<Longrightarrow> mkdir_parents (LOG_DIR w) (fs w) = Inr f1 \<Longrightarrow>
   open_append (str_path (LOG_FILE w)) f1 = Inl e \<Longrightarrow>
     fst (setup_logging a w) = Inl e \<and> fs (snd (setup_logging a w)) = f1"
  by (simp add: setup_logging_def Let_def)

lemma setup_logging_file_ok:
  "log_to_file a \<Longrightarrow> mkdir_parents (LOG_DIR w) (fs w) = Inr f1 \<Longrightarrow>
   open_append (str_path (LOG_FILE w)) f1 = Inr f2 \<Longrightarrow>
     fst (setup_logging a w) = Inr ''s3_client''
   \<and> fs (snd (setup_logging a w)) = f2
   \<and> handlers (loggers (snd (setup_logging a w)) ''s3_client'') = sinks a w"
  by (simp add: setup_logging_def Let_def addHandler_def sinks_def)

lemma setup_logging_frame:
  "module_dir (snd (setup_logging a w)) = module_dir w
 \<and> g_logger (snd (setup_logging a w)) = g_logger w
 \<and> environ (snd (setup_logging a w)) = environ w
 \<and> trace (snd (setup_logging a w)) = trace w"
  by (simp add: setup_logging_def Let_def addHandler_def split: sum.splits)

lemma setup_logging_level:
  "level (loggers (snd (setup_logging a w)) ''s3_client'') = arg_level a"
  by (simp add: setup_logging_def Let_def addHandler_def split: sum.splits)

lemma LOG_paths_frame:
  "module_dir w' = module_dir w \<Longrightarrow> LOG_DIR w' = LOG_DIR w \<and> LOG_FILE w' = LOG_FILE w"
  by (simp add: LOG_DIR_def LOG_FILE_def)

lemma distinct_sinks: "distinct (sinks a w)"
  by (simp add: sinks_def)

lemma length_sinks:
  "length (sinks a w) = (if log_to_file a then 1 else 0) + (if log_to_console a then 1 else 0)"
  by (simp add: sinks_def)

lemma open_append_Inl: "open_append s f = Inl e \<Longrightarrow> nodes f s = Some Dir"
  by (auto simp: open_append_def split: option.splits node.splits)

lemma open_append_Dir: "nodes f s = Some Dir \<Longrightarrow> \<exists>e. open_append s f = Inl e"
  by (simp add: open_append_def)

lemma setup_logging_Inr:
  assumes "fst (setup_logging a w) = Inr l"
  shows "l = ''s3_client'' \<and> handlers (loggers (snd (setup_logging a w)) ''s3_client'') = sinks a w
       \<and> (log_to_file a \<longrightarrow> (\<exists>f1 f2. mkdir_parents (LOG_DIR w) (fs w) = Inr f1
              \<and> open_append (str_path (LOG_FILE w)) f1 = Inr f2))"
proof (cases "log_to_file a")
  case False
  with assms setup_logging_no_file [OF False, of w] show ?thesis by simp
next
  case True
  show ?thesis
  proof (cases "mkdir_parents (LOG_DIR w) (fs w)")
    case (Inl e)
    with assms setup_logging_mkdir_fails [OF True Inl] show ?thesis by simp
  next
    case (Inr f1)
    show ?thesis
    proof (cases "open_append (str_path (LOG_FILE w)) f1")
      case (Inl e)
      with assms setup_logging_open_fails [OF True Inr Inl] show ?thesis by simp
    next
      case f2: (Inr f2)
      with assms setup_logging_file_ok [OF True Inr f2] Inr show ?thesis by auto
    qed
  qed
qed

text \<open>When the file part of a call succeeds after an earlier call, it succeeds without
  the earlier call too.\<close>

lemma file_part_after:
  assumes "mkdir_parents (LOG_DIR w) (fs (snd (setup_logging a1 w))) = Inr g1"
    and "open_append (str_path (LOG_FILE w)) g1 = Inr g2"
  shows "\<exists>f1 f2. mkdir_parents (LOG_DIR w) (fs w) = Inr f1
           \<and> open_append (str_path (LOG_FILE w)) f1 = Inr f2"
proof (cases "log_to_file a1")
  case False
  with assms setup_logging_no_file [OF False, of w] show ?thesis by auto
next
  case True
  show ?thesis
  proof (cases "mkdir_parents (LOG_DIR w) (fs w)")
    case (Inl e)
    with assms setup_logging_mkdir_fails [OF True Inl] show ?thesis by simp
  next
    case (Inr f1)
    show ?thesis
    proof (cases "open_append (str_path (LOG_FILE w)) f1")
      case (Inl e)
      from setup_logging_open_fails [OF True Inr Inl] assms(1)
      have m: "mkdir_all (str_path (LOG_DIR w)) (lineage (LOG_DIR w)) f1 = Inr g1"
        by (simp add: mkdir_parents_def)
      have "nodes g1 (str_path (LOG_FILE w)) = Some Dir"
        by (rule mkdir_all_keeps [OF m]) (rule open_append_Inl [OF Inl])
      from open_append_Dir [OF this] assms(2) show ?thesis by auto
    next
      case f2: (Inr f2)
      with Inr show ?thesis by blast
    qed
  qed
qed

text \<open>
  C5. For two successive calls of \<open>setup_logging\<close>, whatever their arguments and
  whatever the first one did: when the second returns, the sinks attached to the logger
  \<open>s3_client\<close> are exactly those the second call attaches, each of them once, and they
  are the sinks the logger has after that call alone, which returns as well.
\<close>

theorem setup_logging_twice:
  assumes "setup_logging a1 w = (r1, w1)"
    and "setup_logging a2 w1 = (Inr l, w2)"
  shows "l = ''s3_client''
       \<and> handlers (loggers w2 l) = sinks a2 w
       \<and> distinct (handlers (loggers w2 l))
       \<and> length (handlers (loggers w2 l))
           = (if log_to_file a2 then 1 else 0) + (if log_to_console a2 then 1 else 0)
       \<and> fst (setup_logging a2 w) = Inr l
       \<and> handlers (loggers (snd (setup_logging a2 w)) l) = handlers (loggers w2 l)"
proof -
  have w1: "w1 = snd (setup_logging a1 w)"
    using assms(1) by simp
  have md: "module_dir w1 = module_dir w"
    using setup_logging_frame [of a1 w] by (simp add: w1)
  note paths = LOG_paths_frame [OF md]
  have s: "fst (setup_logging a2 w1) = Inr l" and w2: "w2 = snd (setup_logging a2 w1)"
    using assms(2) by simp_all
  from setup_logging_Inr [OF s] have
    l: "l = ''s3_client''" and
    h: "handlers (loggers w2 ''s3_client'') = sinks a2 w1" and
    f: "log_to_file a2 \<longrightarrow> (\<exists>f1 f2. mkdir_parents (LOG_DIR w) (fs w1) = Inr f1
              \<and> open_append (str_path (LOG_FILE w)) f1 = Inr f2)"
    by (simp_all add: w2 paths)
  have same: "sinks a2 w1 = sinks a2 w"
    by (simp add: sinks_def paths)
  have alone: "fst (setup_logging a2 w) = Inr ''s3_client''
             \<and> handlers (loggers (snd (setup_logging a2 w)) ''s3_client'') = sinks a2 w"
  proof (cases "log_to_file a2")
    case False
    from setup_logging_no_file [OF False, of w] show ?thesis by simp
  next
    case True
    with f obtain g1 g2 where "mkdir_parents (LOG_DIR w) (fs w1) = Inr g1"
      and "open_append (str_path (LOG_FILE w)) g1 = Inr g2"
      by blast
    then obtain f1 f2 where "mkdir_parents (LOG_DIR w) (fs w) = Inr f1"
      and "open_append (str_path (LOG_FILE w)) f1 = Inr f2"
      using file_part_after [of w a1 g1 g2] by (auto simp: w1)
    from setup_logging_file_ok [OF True this] show ?thesis by simp
  qed
  show ?thesis
    using l h same alone by (simp add: distinct_sinks length_sinks)
qed

subsection \<open>A run in the empty world\<close>

lemma LOG_example:
  "LOG_DIR world0 = PurePath ''/'' [''app'', ''logs'']"
  "LOG_FILE world0 = PurePath ''/'' [''app'', ''logs'', ''s3_client.log'']"
  "str_path (PurePath ''/'' [''app'', ''logs'', ''s3_client.log'']) = ''/app/logs/s3_client.log''"
  by (simp_all add: LOG_DIR_def LOG_FILE_def world0_def joinpath_def Path_def str_path_def)

lemma LOG_mkdir_example:
  "mkdir_parents (PurePath ''/'' [''app'', ''logs'']) \<lparr>nodes = Map.empty, dir_st_size = 4096\<rparr>
     = Inr \<lparr>nodes = [''/app'' \<mapsto> Dir, ''/app/logs'' \<mapsto> Dir], dir_st_size = 4096\<rparr>"
  by (simp add: mkdir_parents_def lineage_def str_path_def)

lemma setup_example:
  "setup_logging default_setup_args world0
     = (Inr ''s3_client'',
        world0\<lparr>fs := \<lparr>nodes = [''/app'' \<mapsto> Dir, ''/app/logs'' \<mapsto> Dir,
                               ''/app/logs/s3_client.log'' \<mapsto> File []],
                      dir_st_size = 4096\<rparr>,
               loggers := (loggers world0)(''s3_client'' :=
                 \<lparr>level = 20,
                  handlers = [RotatingFileHandler ''/app/logs/s3_client.log'' 5242880 3 ''utf-8'' 20
                                \<lparr>fmt = LOG_FORMAT, datefmt = DATE_FORMAT\<rparr>,
                              StreamHandler 20 \<lparr>fmt = LOG_FORMAT, datefmt = DATE_FORMAT\<rparr>]\<rparr>)\<rparr>)"
proof -
  note fs0 = fs_world0
  have lg0: "loggers world0 = (\<lambda>n. \<lparr>level = 0, handlers = []\<rparr>)"
    by (simp add: world0_def)
  show ?thesis
    by (simp add: setup_logging_def Let_def LOG_example fs0 lg0 LOG_mkdir_example open_append_def
          addHandler_def default_setup_args_def INFO_def)
qed

theorem setup_logging_twice_witness:
  "setup_logging default_setup_args world0
     = (Inr ''s3_client'', snd (setup_logging default_setup_args world0))
   \<and> setup_logging (default_setup_args\<lparr>arg_level := DEBUG\<rparr>)
         (snd (setup_logging default_setup_args world0))
       = (Inr ''s3_client'',
          snd (setup_logging (default_setup_args\<lparr>arg_level := DEBUG\<rparr>)
                 (snd (setup_logging default_setup_args world0))))
   \<and> handlers (loggers (snd (setup_logging (default_setup_args\<lparr>arg_level := DEBUG\<rparr>)
                 (snd (setup_logging default_setup_args world0)))) ''s3_client'')
       = [RotatingFileHandler ''/app/logs/s3_client.log'' 5242880 3 ''utf-8'' 10
            \<lparr>fmt = LOG_FORMAT, datefmt = DATE_FORMAT\<rparr>,
          StreamHandler 10 \<lparr>fmt = LOG_FORMAT, datefmt = DATE_FORMAT\<rparr>]"
proof -
  let ?a2 = "default_setup_args\<lparr>arg_level := DEBUG\<rparr>"
  let ?w1 = "snd (setup_logging default_setup_args world0)"
  have one: "setup_logging default_setup_args world0 = (Inr ''s3_client'', ?w1)"
    by (simp add: setup_example)
  have f: "log_to_file ?a2"
    by (simp add: default_setup_args_def)
  have m: "mkdir_parents (LOG_DIR ?w1) (fs ?w1) = Inr (fs ?w1)"
    by (simp add: LOG_example setup_example mkdir_parents_def lineage_def str_path_def)
  have p: "open_append (str_path (LOG_FILE ?w1)) (fs ?w1) = Inr (fs ?w1)"
    by (simp add: LOG_example setup_example open_append_def)
  have "fst (setup_logging ?a2 ?w1) = Inr ''s3_client''"
    using setup_logging_file_ok [OF f m p] by simp
  then have two: "setup_logging ?a2 ?w1 = (Inr ''s3_client'', snd (setup_logging ?a2 ?w1))"
    by (simp add: prod_eq_iff)
  from setup_logging_twice [OF one two]
  have "handlers (loggers (snd (setup_logging ?a2 ?w1)) ''s3_client'') = sinks ?a2 world0"
    by simp
  then have "handlers (loggers (snd (setup_logging ?a2 ?w1)) ''s3_client'')
       = [RotatingFileHandler ''/app/logs/s3_client.log'' 5242880 3 ''utf-8'' 10
            \<lparr>fmt = LOG_FORMAT, datefmt = DATE_FORMAT\<rparr>,
          StreamHandler 10 \<lparr>fmt = LOG_FORMAT, datefmt = DATE_FORMAT\<rparr>]"
    by (simp add: sinks_def LOG_example default_setup_args_def DEBUG_def)
  with one two show ?thesis by simp
qed

section \<open>The default logger\<close>

lemma get_logger_first:
  "g_logger w = None \<Longrightarrow>
     get_logger w =
       (case fst (setup_logging default_setup_args w) of
          Inl e \<Rightarrow> (Inl e, snd (setup_logging default_setup_args w))
        | Inr l \<Rightarrow> (Inr l, (snd (setup_logging default_setup_args w))\<lparr>g_logger := Some l\<rparr>))"
  by (simp add: get_logger_def split: prod.splits sum.splits)

lemma get_logger_again: "g_logger v = Some l \<Longrightarrow> get_logger v = (Inr l, v)"
  by (simp add: get_logger_def)

text \<open>
  C6. When no default logger exists yet and \<open>get_logger\<close> returns, it has configured the
  logger \<open>s3_client\<close> with the default options (level \<open>INFO\<close>, the rotating file of
  5 MB with 3 backups, the console) and it returns that logger. Every later call
  returns the same logger and leaves the world as it is, also after \<open>setup_logging\<close> has
  been called in between with other options: nothing is configured again.
\<close>

theorem get_logger_singleton:
  assumes "g_logger w = None"
    and "get_logger w = (Inr l, w1)"
  shows "l = ''s3_client''
       \<and> level (loggers w1 l) = INFO
       \<and> handlers (loggers w1 l)
           = [RotatingFileHandler (str_path (LOG_FILE w)) (5 * 1024 * 1024) 3 ''utf-8'' INFO
                \<lparr>fmt = LOG_FORMAT, datefmt = DATE_FORMAT\<rparr>,
              StreamHandler INFO \<lparr>fmt = LOG_FORMAT, datefmt = DATE_FORMAT\<rparr>]
       \<and> get_logger w1 = (Inr l, w1)
       \<and> (\<forall>a. get_logger (snd (setup_logging a w1)) = (Inr l, snd (setup_logging a w1)))
       \<and> (\<forall>v. g_logger v = Some l \<longrightarrow> get_logger v = (Inr l, v))"
proof -
  let ?s = "setup_logging default_setup_args w"
  from assms have s: "fst ?s = Inr l" and w1: "w1 = (snd ?s)\<lparr>g_logger := Some l\<rparr>"
    by (auto simp: get_logger_first split: sum.splits)
  from setup_logging_Inr [OF s] have l: "l = ''s3_client''"
    and h: "handlers (loggers (snd ?s) ''s3_client'') = sinks default_setup_args w"
    by simp_all
  have lv: "level (loggers w1 l) = INFO"
    using setup_logging_level [of default_setup_args w]
    by (simp add: w1 l default_setup_args_def)
  have hs: "handlers (loggers w1 l)
           = [RotatingFileHandler (str_path (LOG_FILE w)) (5 * 1024 * 1024) 3 ''utf-8'' INFO
                \<lparr>fmt = LOG_FORMAT, datefmt = DATE_FORMAT\<rparr>,
              StreamHandler INFO \<lparr>fmt = LOG_FORMAT, datefmt = DATE_FORMAT\<rparr>]"
    using h by (simp add: w1 l sinks_def default_setup_args_def)
  have g: "g_logger w1 = Some l"
    by (simp add: w1)
  have "g_logger (snd (setup_logging a w1)) = Some l" for a
    using setup_logging_frame [of a w1] g by simp
  then have "\<forall>a. get_logger (snd (setup_logging a w1)) = (Inr l, snd (setup_logging a w1))"
    by (simp add: get_logger_again)
  with l lv hs g show ?thesis
    by (simp add: get_logger_again)
qed

lemma get_logger_example:
  "get_logger world0 = (Inr ''s3_client'', (snd (setup_logging default_setup_args world0))\<lparr>g_logger := Some ''s3_client''\<rparr>)"
proof -
  have "g_logger world0 = None"
    by (simp add: world0_def)
  from get_logger_first [OF this] show ?thesis
    by (simp add: setup_example)
qed

theorem get_logger_singleton_witness:
  "g_logger world0 = None
   \<and> fst (get_logger world0) = Inr ''s3_client''
   \<and> level (loggers (snd (get_logger world0)) ''s3_client'') = 20
   \<and> handlers (loggers (snd (get_logger world0)) ''s3_client'')
       = [RotatingFileHandler ''/app/logs/s3_client.log'' 5242880 3 ''utf-8'' 20
            \<lparr>fmt = LOG_FORMAT, datefmt = DATE_FORMAT\<rparr>,
          StreamHandler 20 \<lparr>fmt = LOG_FORMAT, datefmt = DATE_FORMAT\<rparr>]
   \<and> get_logger (snd (get_logger world0)) = (Inr ''s3_client'', snd (get_logger world0))"
proof -
  have n: "g_logger world0 = None"
    by (simp add: world0_def)
  from get_logger_singleton [OF n get_logger_example] n show ?thesis
    by (simp add: get_logger_example LOG_example INFO_def)
qed

section \<open>Construction\<close>

lemma resolve_environ: "environ w1 = environ w \<Longrightarrow> resolve a w1 = resolve a w"
  by (simp add: resolve_def getenv_def getenv_default_def split: option.splits)

lemma get_logger_environ: "environ (snd (get_logger w)) = environ w"
proof (cases "g_logger w")
  case None
  show ?thesis
    using setup_logging_frame [of default_setup_args w]
    by (cases "fst (setup_logging default_setup_args w)") (simp_all add: get_logger_first [OF None])
next
  case (Some l)
  then show ?thesis by (simp add: get_logger_again)
qed

lemma init_Inr:
  assumes "init sdk b a w = (Inr c, w')"
  shows "bucket c = b
       \<and> sdk (session_kwargs (resolve a w)) (client_kwargs (resolve a w)) = Inr (client c)"
proof (cases "logger a")
  case None
  have r: "resolve a (snd (get_logger w)) = resolve a w"
    by (rule resolve_environ) (rule get_logger_environ)
  obtain g w1 where g: "get_logger w = (g, w1)"
    by (cases "get_logger w")
  with r have r1: "resolve a w1 = resolve a w"
    by simp
  from assms None g show ?thesis
    by (auto simp: init_def Let_def r1 split: sum.splits)
next
  case (Some l)
  with assms show ?thesis
    by (auto simp: init_def Let_def split: sum.splits)
qed

lemma init_unfold:
  assumes "(case logger a of Some l \<Rightarrow> (Inr l, w) | None \<Rightarrow> get_logger w) = (Inr l, w1)"
  shows "init sdk b a w =
           (case sdk (session_kwargs (resolve a w)) (client_kwargs (resolve a w)) of
              Inl e \<Rightarrow> (Inl e, w1)
            | Inr c \<Rightarrow>
                (Inr \<lparr>bucket = b, log = l, client = c\<rparr>,
                 log_info l (M_client_init b (r_region_name (resolve a w))) w1))"
proof -
  have "environ w1 = environ w"
  proof (cases "logger a")
    case None
    with assms have "w1 = snd (get_logger w)" by simp
    then show ?thesis by (simp add: get_logger_environ)
  next
    case (Some l')
    with assms show ?thesis by simp
  qed
  then have r: "resolve a w1 = resolve a w"
    by (rule resolve_environ)
  show ?thesis
    using assms by (simp add: init_def Let_def r split: sum.splits)
qed

lemma init_raises:
  assumes "(case logger a of Some l \<Rightarrow> (Inr l, w) | None \<Rightarrow> get_logger w) = (Inl e, w1)"
  shows "init sdk b a w = (Inl e, w1)"
  using assms by (simp add: init_def)

lemma credentials_in_session_kwargs:
  "(truthy (r_aws_access_key_id r) \<and> truthy (r_aws_secret_access_key r) \<longrightarrow>
      map_of (session_kwargs r) ''aws_access_key_id'' = r_aws_access_key_id r
    \<and> map_of (session_kwargs r) ''aws_secret_access_key'' = r_aws_secret_access_key r)
 \<and> (\<not> (truthy (r_aws_access_key_id r) \<and> truthy (r_aws_secret_access_key r)) \<longrightarrow>
      map_of (session_kwargs r) ''aws_access_key_id'' = None
    \<and> map_of (session_kwargs r) ''aws_secret_access_key'' = None)"
  by (cases "r_aws_access_key_id r"; cases "r_aws_secret_access_key r")
     (auto simp: session_kwargs_def)

text \<open>
  C7, amended. At construction, each of the region, the access key, the secret key and
  the endpoint resolves to the constructor argument when that is supplied and is not the
  empty string, and to the value of the environment variable when the argument is
  \<open>None\<close> or the empty string (\<open>AWS_REGION\<close>, with \<open>ru-central1\<close> when that is not set,
  \<open>AWS_ACCESS_KEY_ID\<close>, \<open>AWS_SECRET_ACCESS_KEY\<close>, \<open>AWS_ENDPOINT_URL\<close>). Once the logger
  is there, the constructor builds the SDK session and client from the resolved values
  and from nothing else: the region always, the endpoint when it is not empty, the
  access key and the secret key when both are present and not empty, and neither of
  them otherwise, also when one of them was supplied as an argument.
\<close>

theorem init_resolution:
  "(\<forall>l w1. (case logger a of Some l \<Rightarrow> (Inr l, w) | None \<Rightarrow> get_logger w) = (Inr l, w1) \<longrightarrow>
       init sdk b a w =
         (case sdk (session_kwargs (resolve a w)) (client_kwargs (resolve a w)) of
            Inl e \<Rightarrow> (Inl e, w1)
          | Inr c \<Rightarrow>
              (Inr \<lparr>bucket = b, log = l, client = c\<rparr>,
               log_info l (M_client_init b (r_region_name (resolve a w))) w1)))
 \<and> (\<forall>v. region_name a = Some v \<and> v \<noteq> [] \<longrightarrow> r_region_name (resolve a w) = v)
 \<and> (\<not> truthy (region_name a) \<longrightarrow>
      r_region_name (resolve a w)
        = (case environ w ''AWS_REGION'' of None \<Rightarrow> ''ru-central1'' | Some v \<Rightarrow> v))
 \<and> (truthy (aws_access_key_id a) \<longrightarrow> r_aws_access_key_id (resolve a w) = aws_access_key_id a)
 \<and> (\<not> truthy (aws_access_key_id a) \<longrightarrow>
      r_aws_access_key_id (resolve a w) = environ w ''AWS_ACCESS_KEY_ID'')
 \<and> (truthy (aws_secret_access_key a) \<longrightarrow>
      r_aws_secret_access_key (resolve a w) = aws_secret_access_key a)
 \<and> (\<not> truthy (aws_secret_access_key a) \<longrightarrow>
      r_aws_secret_access_key (resolve a w) = environ w ''AWS_SECRET_ACCESS_KEY'')
 \<and> (truthy (endpoint_url a) \<longrightarrow> r_endpoint_url (resolve a w) = endpoint_url a)
 \<and> (\<not> truthy (endpoint_url a) \<longrightarrow> r_endpoint_url (resolve a w) = environ w ''AWS_ENDPOINT_URL'')
 \<and> map_of (session_kwargs (resolve a w)) ''region_name'' = Some (r_region_name (resolve a w))
 \<and> map_of (client_kwargs (resolve a w)) ''endpoint_url''
      = (if truthy (r_endpoint_url (resolve a w)) then r_endpoint_url (resolve a w) else None)
 \<and> (truthy (r_aws_access_key_id (resolve a w)) \<and> truthy (r_aws_secret_access_key (resolve a w))
      \<longrightarrow> map_of (session_kwargs (resolve a w)) ''aws_access_key_id''
            = r_aws_access_key_id (resolve a w)
        \<and> map_of (session_kwargs (resolve a w)) ''aws_secret_access_key''
            = r_aws_secret_access_key (resolve a w))
 \<and> (\<not> (truthy (r_aws_access_key_id (resolve a w)) \<and> truthy (r_aws_secret_access_key (resolve a w)))
      \<longrightarrow> map_of (session_kwargs (resolve a w)) ''aws_access_key_id'' = None
        \<and> map_of (session_kwargs (resolve a w)) ''aws_secret_access_key'' = None)
 \<and> set (map fst (session_kwargs (resolve a w)))
      \<subseteq> {''region_name'', ''aws_access_key_id'', ''aws_secret_access_key''}
 \<and> set (map fst (client_kwargs (resolve a w))) \<subseteq> {''endpoint_url''}

 \<and> (\<forall>c w'. init sdk b a w = (Inr c, w') \<longrightarrow>
       bucket c = b
     \<and> sdk (session_kwargs (resolve a w)) (client_kwargs (resolve a w)) = Inr (client c))"
proof -
  have "\<forall>v. region_name a = Some v \<and> v \<noteq> [] \<longrightarrow> r_region_name (resolve a w) = v"
    by (simp add: resolve_def)
  moreover have "\<not> truthy (region_name a) \<longrightarrow>
      r_region_name (resolve a w)
        = (case environ w ''AWS_REGION'' of None \<Rightarrow> ''ru-central1'' | Some v \<Rightarrow> v)"
    by (cases "region_name a") (simp_all add: resolve_def getenv_default_def)
  moreover have "(truthy x \<longrightarrow> py_or x y = x) \<and> (\<not> truthy x \<longrightarrow> py_or x y = y)" for x y
    by (simp add: py_or_def)
  moreover have "map_of (session_kwargs (resolve a w)) ''region_name''
      = Some (r_region_name (resolve a w))"
    by (simp add: session_kwargs_def)
  moreover have "map_of (client_kwargs (resolve a w)) ''endpoint_url''
      = (if truthy (r_endpoint_url (resolve a w)) then r_endpoint_url (resolve a w) else None)"
    by (cases "r_endpoint_url (resolve a w)") (simp_all add: client_kwargs_def)
  moreover note credentials_in_session_kwargs [of "resolve a w"]
  moreover have "set (map fst (session_kwargs (resolve a w)))
      \<subseteq> {''region_name'', ''aws_access_key_id'', ''aws_secret_access_key''}"
    by (cases "r_aws_access_key_id (resolve a w)"; cases "r_aws_secret_access_key (resolve a w)")
       (auto simp: session_kwargs_def)
  moreover have "set (map fst (client_kwargs (resolve a w))) \<subseteq> {''endpoint_url''}"
    by (cases "r_endpoint_url (resolve a w)") (auto simp: client_kwargs_def)
  moreover have "\<forall>l w1. (case logger a of Some l \<Rightarrow> (Inr l, w) | None \<Rightarrow> get_logger w) = (Inr l, w1) \<longrightarrow>
       init sdk b a w =
         (case sdk (session_kwargs (resolve a w)) (client_kwargs (resolve a w)) of
            Inl e \<Rightarrow> (Inl e, w1)
          | Inr c \<Rightarrow>
              (Inr \<lparr>bucket = b, log = l, client = c\<rparr>,
               log_info l (M_client_init b (r_region_name (resolve a w))) w1))"
    using init_unfold by blast
  moreover have "\<forall>c w'. init sdk b a w = (Inr c, w') \<longrightarrow>
       bucket c = b
     \<and> sdk (session_kwargs (resolve a w)) (client_kwargs (resolve a w)) = Inr (client c)"
    using init_Inr by blast
  ultimately show ?thesis
    by (simp add: resolve_def getenv_def)
qed


lemma world_env_environ:
  "environ world_env = [''AWS_REGION'' \<mapsto> ''eu-west-1'', ''AWS_ACCESS_KEY_ID'' \<mapsto> ''ENVKEY'',
                        ''AWS_SECRET_ACCESS_KEY'' \<mapsto> ''ENVSECRET'']"
  by (simp add: world_env_def)

lemma world_env_trace: "trace world_env = []"
  by (simp add: world_env_def world0_def)

theorem init_resolution_witness:
  "region_name (no_args\<lparr>region_name := Some ''us-east-1'',
       endpoint_url := Some ''http://localhost:9000'', logger := Some ''custom''\<rparr>)
     = Some ''us-east-1''
 \<and> r_region_name (resolve (no_args\<lparr>region_name := Some ''us-east-1'',
       endpoint_url := Some ''http://localhost:9000'', logger := Some ''custom''\<rparr>) world_env)
     = ''us-east-1''
 \<and> \<not> truthy (aws_access_key_id (no_args\<lparr>region_name := Some ''us-east-1'',
       endpoint_url := Some ''http://localhost:9000'', logger := Some ''custom''\<rparr>))
 \<and> r_aws_access_key_id (resolve (no_args\<lparr>region_name := Some ''us-east-1'',
       endpoint_url := Some ''http://localhost:9000'', logger := Some ''custom''\<rparr>) world_env)
     = Some ''ENVKEY''
 \<and> r_endpoint_url (resolve (no_args\<lparr>region_name := Some ''us-east-1'',
       endpoint_url := Some ''http://localhost:9000'', logger := Some ''custom''\<rparr>) world_env)
     = Some ''http://localhost:9000''
 \<and> init echo_boto3 ''test-bucket''
       (no_args\<lparr>region_name := Some ''us-east-1'',
          endpoint_url := Some ''http://localhost:9000'', logger := Some ''custom''\<rparr>) world_env
     = (Inr \<lparr>bucket = ''test-bucket'', log = ''custom'',
              client = echo_sdk
                [(''region_name'', ''us-east-1''), (''aws_access_key_id'', ''ENVKEY''),
                 (''aws_secret_access_key'', ''ENVSECRET'')]
                [(''endpoint_url'', ''http://localhost:9000'')]\<rparr>,
        world_env\<lparr>trace := [LogRecord ''custom'' INFO False
                                (M_client_init ''test-bucket'' ''us-east-1'')]\<rparr>)
 \<and> generate_presigned_url
       (echo_sdk
          [(''region_name'', ''us-east-1''), (''aws_access_key_id'', ''ENVKEY''),
           (''aws_secret_access_key'', ''ENVSECRET'')]
          [(''endpoint_url'', ''http://localhost:9000'')])
       ''get_object'' ''test-bucket'' ''a.txt'' 3600
     = Inr ''region_name=us-east-1;aws_access_key_id=ENVKEY;aws_secret_access_key=ENVSECRET;|endpoint_url=http://localhost:9000;''"
proof -
  let ?a = "no_args\<lparr>region_name := Some ''us-east-1'',
              endpoint_url := Some ''http://localhost:9000'', logger := Some ''custom''\<rparr>"
  have r: "resolve ?a world_env
      = \<lparr>r_region_name = ''us-east-1'', r_aws_access_key_id = Some ''ENVKEY'',
         r_aws_secret_access_key = Some ''ENVSECRET'',
         r_endpoint_url = Some ''http://localhost:9000''\<rparr>"
    by (simp add: resolve_def no_args_def py_or_def getenv_def world_env_environ)
  have l: "logger ?a = Some ''custom''"
    by (simp add: no_args_def)
  have k: "session_kwargs (resolve ?a world_env)
      = [(''region_name'', ''us-east-1''), (''aws_access_key_id'', ''ENVKEY''),
         (''aws_secret_access_key'', ''ENVSECRET'')]"
    "client_kwargs (resolve ?a world_env) = [(''endpoint_url'', ''http://localhost:9000'')]"
    by (simp_all add: r session_kwargs_def client_kwargs_def)
  have lg: "(case logger ?a of Some l \<Rightarrow> (Inr l, world_env) | None \<Rightarrow> get_logger world_env)
              = (Inr ''custom'', world_env)"
    by (simp add: l)
  note i = init_resolution [where a = ?a and w = world_env and sdk = echo_boto3
             and b = "''test-bucket''", THEN conjunct1,
             rule_format, OF lg]
  have "init echo_boto3 ''test-bucket'' ?a world_env
     = (Inr \<lparr>bucket = ''test-bucket'', log = ''custom'',
              client = echo_sdk
                [(''region_name'', ''us-east-1''), (''aws_access_key_id'', ''ENVKEY''),
                 (''aws_secret_access_key'', ''ENVSECRET'')]
                [(''endpoint_url'', ''http://localhost:9000'')]\<rparr>,
        world_env\<lparr>trace := [LogRecord ''custom'' INFO False
                                (M_client_init ''test-bucket'' ''us-east-1'')]\<rparr>)"
    by (simp only: i k) (simp add: r echo_boto3_def log_info_def world_env_trace)
  moreover have "region_name ?a = Some ''us-east-1''" "\<not> truthy (aws_access_key_id ?a)"
    by (simp_all add: no_args_def)
  moreover have "generate_presigned_url
       (echo_sdk
          [(''region_name'', ''us-east-1''), (''aws_access_key_id'', ''ENVKEY''),
           (''aws_secret_access_key'', ''ENVSECRET'')]
          [(''endpoint_url'', ''http://localhost:9000'')])
       ''get_object'' ''test-bucket'' ''a.txt'' 3600
     = Inr ''region_name=us-east-1;aws_access_key_id=ENVKEY;aws_secret_access_key=ENVSECRET;|endpoint_url=http://localhost:9000;''"
    by (simp add: echo_sdk_def)
  moreover have "r_region_name (resolve ?a world_env) = ''us-east-1''"
    "r_aws_access_key_id (resolve ?a world_env) = Some ''ENVKEY''"
    "r_endpoint_url (resolve ?a world_env) = Some ''http://localhost:9000''"
    by (simp_all only: r resolved.simps)
  ultimately show ?thesis
    by (intro conjI)
qed

text \<open>
  C7 as it is stated fails for an argument supplied as the empty string, and for an
  access key supplied without a secret key. The region passed as \<open>""\<close> is not used as
  given, the value of \<open>AWS_REGION\<close> is. The access key passed alone, with no secret key
  in the arguments or in the environment, resolves to the argument and is then left out:
  the session is built from the region only.
\<close>

theorem explicit_arguments_not_used:
  "region_name (no_args\<lparr>region_name := Some []\<rparr>) = Some []
 \<and> r_region_name (resolve (no_args\<lparr>region_name := Some []\<rparr>) world_env) = ''eu-west-1''
 \<and> map_of (session_kwargs (resolve (no_args\<lparr>region_name := Some []\<rparr>) world_env)) ''region_name''
     = Some ''eu-west-1''
 \<and> r_aws_access_key_id
       (resolve (no_args\<lparr>aws_access_key_id := Some ''ARGKEY'', logger := Some ''custom''\<rparr>) world0)
     = Some ''ARGKEY''
 \<and> init echo_boto3 ''test-bucket''
       (no_args\<lparr>aws_access_key_id := Some ''ARGKEY'', logger := Some ''custom''\<rparr>) world0
     = (Inr \<lparr>bucket = ''test-bucket'', log = ''custom'',
              client = echo_sdk [(''region_name'', ''ru-central1'')] []\<rparr>,
        world0\<lparr>trace := [LogRecord ''custom'' INFO False
                             (M_client_init ''test-bucket'' ''ru-central1'')]\<rparr>)
 \<and> generate_presigned_url (echo_sdk [(''region_name'', ''ru-central1'')] [])
       ''get_object'' ''test-bucket'' ''a.txt'' 3600
     = Inr ''region_name=ru-central1;|''"
  by (simp add: init_def Let_def session_kwargs_def client_kwargs_def resolve_def no_args_def
        py_or_def getenv_def getenv_default_def world_env_environ echo_boto3_def echo_sdk_def
        log_info_def world0_def)

text \<open>
  C9. Once the logger is there, the constructor builds the SDK session from keyword
  arguments that hold the access key and the secret key exactly when, after the fallback
  to the environment, both are present and not empty; when only one of them is, or
  none, the session is built from the region alone, without credentials.
\<close>

theorem credentials_forwarded_together:
  assumes "(case logger a of Some l \<Rightarrow> (Inr l, w) | None \<Rightarrow> get_logger w) = (Inr l, w1)"
  shows "init sdk b a w =
           (case sdk (session_kwargs (resolve a w)) (client_kwargs (resolve a w)) of
              Inl e \<Rightarrow> (Inl e, w1)
            | Inr c \<Rightarrow>
                (Inr \<lparr>bucket = b, log = l, client = c\<rparr>,
                 log_info l (M_client_init b (r_region_name (resolve a w))) w1))
 \<and> (\<forall>k s. r_aws_access_key_id (resolve a w) = Some k \<and> k \<noteq> []
        \<and> r_aws_secret_access_key (resolve a w) = Some s \<and> s \<noteq> [] \<longrightarrow>
      session_kwargs (resolve a w)
        = [(''region_name'', r_region_name (resolve a w)), (''aws_access_key_id'', k),
           (''aws_secret_access_key'', s)])
 \<and> (\<not> (truthy (r_aws_access_key_id (resolve a w)) \<and> truthy (r_aws_secret_access_key (resolve a w)))
      \<longrightarrow> session_kwargs (resolve a w) = [(''region_name'', r_region_name (resolve a w))])
 \<and> (\<forall>c w'. init sdk b a w = (Inr c, w') \<longrightarrow>
       sdk (session_kwargs (resolve a w)) (client_kwargs (resolve a w)) = Inr (client c))"
proof -
  note init_unfold [OF assms, of sdk b]
  moreover have "\<forall>k s. r_aws_access_key_id (resolve a w) = Some k \<and> k \<noteq> []
        \<and> r_aws_secret_access_key (resolve a w) = Some s \<and> s \<noteq> [] \<longrightarrow>
      session_kwargs (resolve a w)
        = [(''region_name'', r_region_name (resolve a w)), (''aws_access_key_id'', k),
           (''aws_secret_access_key'', s)]"
    by (simp add: session_kwargs_def)
  moreover have "\<not> (truthy (r_aws_access_key_id (resolve a w))
                   \<and> truthy (r_aws_secret_access_key (resolve a w)))
      \<longrightarrow> session_kwargs (resolve a w) = [(''region_name'', r_region_name (resolve a w))]"
    by (cases "r_aws_access_key_id (resolve a w)"; cases "r_aws_secret_access_key (resolve a w)")
       (auto simp: session_kwargs_def)
  moreover have "\<forall>c w'. init sdk b a w = (Inr c, w') \<longrightarrow>
       sdk (session_kwargs (resolve a w)) (client_kwargs (resolve a w)) = Inr (client c)"
    using init_Inr by blast
  ultimately show ?thesis by blast
qed

theorem credentials_forwarded_together_witness:
  "r_aws_access_key_id
     (resolve (no_args\<lparr>aws_access_key_id := Some ''ARGKEY'', logger := Some ''custom''\<rparr>) world0)
     = Some ''ARGKEY''
 \<and> r_aws_secret_access_key
     (resolve (no_args\<lparr>aws_access_key_id := Some ''ARGKEY'', logger := Some ''custom''\<rparr>) world0)
     = None
 \<and> init echo_boto3 ''test-bucket''
       (no_args\<lparr>aws_access_key_id := Some ''ARGKEY'', logger := Some ''custom''\<rparr>) world0
     = (Inr \<lparr>bucket = ''test-bucket'', log = ''custom'',
              client = echo_sdk [(''region_name'', ''ru-central1'')] []\<rparr>,
        world0\<lparr>trace := [LogRecord ''custom'' INFO False
                             (M_client_init ''test-bucket'' ''ru-central1'')]\<rparr>)
 \<and> generate_presigned_url (echo_sdk [(''region_name'', ''ru-central1'')] [])
       ''get_object'' ''test-bucket'' ''a.txt'' 3600
     = Inr ''region_name=ru-central1;|''
 \<and> r_aws_access_key_id
     (resolve (no_args\<lparr>aws_access_key_id := Some ''ARGKEY'', logger := Some ''custom''\<rparr>) world_env)
     = Some ''ARGKEY''
 \<and> r_aws_secret_access_key
     (resolve (no_args\<lparr>aws_access_key_id := Some ''ARGKEY'', logger := Some ''custom''\<rparr>) world_env)
     = Some ''ENVSECRET''
 \<and> init echo_boto3 ''test-bucket''
       (no_args\<lparr>aws_access_key_id := Some ''ARGKEY'', logger := Some ''custom''\<rparr>) world_env
     = (Inr \<lparr>bucket = ''test-bucket'', log = ''custom'',
              client = echo_sdk
                [(''region_name'', ''eu-west-1''), (''aws_access_key_id'', ''ARGKEY''),
                 (''aws_secret_access_key'', ''ENVSECRET'')] []\<rparr>,
        world_env\<lparr>trace := [LogRecord ''custom'' INFO False
                                (M_client_init ''test-bucket'' ''eu-west-1'')]\<rparr>)
 \<and> generate_presigned_url
       (echo_sdk
          [(''region_name'', ''eu-west-1''), (''aws_access_key_id'', ''ARGKEY''),
           (''aws_secret_access_key'', ''ENVSECRET'')] [])
       ''get_object'' ''test-bucket'' ''a.txt'' 3600
     = Inr ''region_name=eu-west-1;aws_access_key_id=ARGKEY;aws_secret_access_key=ENVSECRET;|''"
proof -
  let ?a = "no_args\<lparr>aws_access_key_id := Some ''ARGKEY'', logger := Some ''custom''\<rparr>"
  have e0: "environ world0 = Map.empty" "trace world0 = []"
    by (simp_all add: world0_def)
  have r0: "resolve ?a world0
      = \<lparr>r_region_name = ''ru-central1'', r_aws_access_key_id = Some ''ARGKEY'',
         r_aws_secret_access_key = None, r_endpoint_url = None\<rparr>"
    by (simp add: resolve_def no_args_def py_or_def getenv_def getenv_default_def e0)
  have r1: "resolve ?a world_env
      = \<lparr>r_region_name = ''eu-west-1'', r_aws_access_key_id = Some ''ARGKEY'',
         r_aws_secret_access_key = Some ''ENVSECRET'', r_endpoint_url = None\<rparr>"
    by (simp add: resolve_def no_args_def py_or_def getenv_def getenv_default_def
          world_env_environ)
  have l0: "(case logger ?a of Some l \<Rightarrow> (Inr l, world0) | None \<Rightarrow> get_logger world0)
              = (Inr ''custom'', world0)"
    and l1: "(case logger ?a of Some l \<Rightarrow> (Inr l, world_env) | None \<Rightarrow> get_logger world_env)
              = (Inr ''custom'', world_env)"
    by (simp_all add: no_args_def)
  have c: "client_kwargs \<lparr>r_region_name = x, r_aws_access_key_id = y,
             r_aws_secret_access_key = z, r_endpoint_url = None\<rparr> = []" for x y z
    by (simp add: client_kwargs_def)
  note t0 = credentials_forwarded_together [OF l0, where sdk = echo_boto3
              and b = "''test-bucket''", THEN conjunct1]
  have i0: "init echo_boto3 ''test-bucket'' ?a world0
     = (Inr \<lparr>bucket = ''test-bucket'', log = ''custom'',
              client = echo_sdk [(''region_name'', ''ru-central1'')] []\<rparr>,
        world0\<lparr>trace := [LogRecord ''custom'' INFO False
                             (M_client_init ''test-bucket'' ''ru-central1'')]\<rparr>)"
    by (simp only: t0) (simp add: r0 c session_kwargs_def echo_boto3_def log_info_def e0)
  note t1 = credentials_forwarded_together [OF l1, where sdk = echo_boto3
              and b = "''test-bucket''", THEN conjunct1]
  have i1: "init echo_boto3 ''test-bucket'' ?a world_env
     = (Inr \<lparr>bucket = ''test-bucket'', log = ''custom'',
              client = echo_sdk
                [(''region_name'', ''eu-west-1''), (''aws_access_key_id'', ''ARGKEY''),
                 (''aws_secret_access_key'', ''ENVSECRET'')] []\<rparr>,
        world_env\<lparr>trace := [LogRecord ''custom'' INFO False
                                (M_client_init ''test-bucket'' ''eu-west-1'')]\<rparr>)"
    by (simp only: t1) (simp add: r1 c session_kwargs_def echo_boto3_def log_info_def world_env_trace)
  have g: "generate_presigned_url (echo_sdk skw ckw) m bk ky ex
             = Inr (render_kwargs skw @ ''|'' @ render_kwargs ckw)" for skw ckw m bk ky ex
    by (simp add: echo_sdk_def)
  show ?thesis
    by (simp only: i0 i1 r0 r1 resolved.simps g) simp
qed

end
